theory Spec2Isabelle
  imports Main "HOL-Library.Word"
begin

section \<open>Time values\<close>

text \<open>
  A JavaScript \<^verbatim>\<open>Date\<close> holds a time value: an integer number of milliseconds since
  1970-01-01T00:00:00Z, negative before that instant. Prisma stores a \<^verbatim>\<open>DateTime\<close> column
  of a SQLite table as that same integer, and binds a \<^verbatim>\<open>Date\<close> parameter of a raw query
  as that integer. Time values are unbounded integers here; the limit of 8.64e15 ms that
  ECMAScript puts on a \<^verbatim>\<open>Date\<close> is not modelled.
\<close>

type_synonym instant = int

definition msPerDay :: int where
  "msPerDay = 86400000"

definition Day :: "instant \<Rightarrow> int" where
  "Day t = t div msPerDay"

definition TimeWithinDay :: "instant \<Rightarrow> int" where
  "TimeWithinDay t = t mod msPerDay"

definition MakeTime :: "int \<Rightarrow> int \<Rightarrow> int \<Rightarrow> int \<Rightarrow> int" where
  "MakeTime h m s ms = h * 3600000 + m * 60000 + s * 1000 + ms"

definition MakeDate :: "int \<Rightarrow> int \<Rightarrow> instant" where
  "MakeDate d tm = d * msPerDay + tm"

text \<open>\<^verbatim>\<open>d.setUTCHours(h, m, s, ms)\<close>: the same UTC day, the time of day replaced.\<close>

definition setUTCHours :: "int \<Rightarrow> int \<Rightarrow> int \<Rightarrow> int \<Rightarrow> instant \<Rightarrow> instant" where
  "setUTCHours h m s ms t = MakeDate (Day t) (MakeTime h m s ms)"

text \<open>
  \<^verbatim>\<open>d.setUTCDate(d.getUTCDate() - n)\<close>: ECMAScript builds the new day as the first day of
  the month of \<^verbatim>\<open>d\<close> plus (day of month - n) - 1, which is the day of \<^verbatim>\<open>d\<close> minus n whatever
  the month is (a day of month below 1 rolls back into the earlier months); the time of
  day is kept.
\<close>

definition setUTCDate_minus :: "int \<Rightarrow> instant \<Rightarrow> instant" where
  "setUTCDate_minus n t = MakeDate (Day t - n) (TimeWithinDay t)"

text \<open>
  The spec's notion of the day of a click: the date portion of the UTC timestamp. A
  calendar date is represented by its day number (days since 1970-01-01, negative
  before); the text \<^verbatim>\<open>YYYY-MM-DD\<close> that SQLite prints for it is in one-to-one,
  order-preserving correspondence with the day number over the years 0000 to 9999 that
  SQLite's date functions support.
\<close>

type_synonym calendar_date = int

definition utc_date :: "instant \<Rightarrow> calendar_date" where
  "utc_date t = Day t"

section \<open>SQLite expressions of the daily query\<close>

text \<open>SQLite's \<^verbatim>\<open>/\<close> on two integers truncates toward zero.\<close>

definition sqlite_div :: "int \<Rightarrow> int \<Rightarrow> int" where
  "sqlite_div a b = sgn a * sgn b * (\<bar>a\<bar> div \<bar>b\<bar>)"

text \<open>
  \<^verbatim>\<open>date(s, 'unixepoch')\<close>: the calendar date of the Unix time \<^verbatim>\<open>s\<close>, in seconds. SQLite
  gives no date (\<^verbatim>\<open>NULL\<close>) from the year 10000 on; that is not modelled, as it would take a
  server clock past the year 9999 to record such a click.
\<close>

definition date_unixepoch :: "int \<Rightarrow> calendar_date" where
  "date_unixepoch s = s div 86400"

text \<open>The bucket key of the daily query: \<^verbatim>\<open>date(ts_utc/1000, 'unixepoch')\<close>.\<close>

definition sql_day :: "instant \<Rightarrow> calendar_date" where
  "sql_day ts = date_unixepoch (sqlite_div ts 1000)"

section \<open>Data model\<close>

text \<open>
  The two tables of the migration. Identifiers are Prisma's \<^verbatim>\<open>cuid()\<close> values; they are
  modelled by natural numbers drawn from a counter of the store, so that every
  identifier issued is new.
\<close>

record link =
  link_id :: nat
  slug :: string
  targetUrl :: string
  createdAt :: instant

record click =
  click_id :: nat
  linkId :: nat
  tsUtc :: instant
  userAgent :: string

record store =
  links :: "link list"
  clicks :: "click list"
  next_id :: nat

section \<open>Requests, responses and thrown values\<close>

record request =
  hdr_x_forwarded_proto :: "string option"
  hdr_host :: "string option"
  hdr_user_agent :: "string option"
  secure :: bool

datatype body =
    LinkJson link string
  | ErrorJson string string
  | TotalJson nat
  | DailyJson "(calendar_date \<times> nat) list"
  | PlainText string

datatype response =
    Response nat body
  | Redirect nat string

text \<open>
  What the handlers throw: an object with the optional fields the error handler reads
  (\<^verbatim>\<open>ErrorWithStatus\<close>). The \<^verbatim>\<open>details\<close> list of a validation error is left out.
\<close>

record thrown =
  status :: "nat option"
  code :: "string option"
  message :: "string option"

text \<open>A JavaScript \<^verbatim>\<open>new Error(msg)\<close>: a message, no status and no code.\<close>

definition js_Error :: "string \<Rightarrow> thrown" where
  "js_Error msg = \<lparr>status = None, code = None, message = Some msg\<rparr>"

text \<open>
  \<^verbatim>\<open>x || d\<close> on an optional string or number: \<^verbatim>\<open>undefined\<close>, the empty string and 0 are
  falsy.
\<close>

definition truthy_str :: "string option \<Rightarrow> bool" where
  "truthy_str x = (case x of None \<Rightarrow> False | Some s \<Rightarrow> s \<noteq> [])"

definition or_str :: "string option \<Rightarrow> string \<Rightarrow> string" where
  "or_str x d = (case x of None \<Rightarrow> d | Some s \<Rightarrow> if s \<noteq> [] then s else d)"

definition or_num :: "nat option \<Rightarrow> nat \<Rightarrow> nat" where
  "or_num x d = (case x of None \<Rightarrow> d | Some n \<Rightarrow> if n \<noteq> 0 then n else d)"

definition errorHandler :: "thrown \<Rightarrow> response" where
  "errorHandler err =
     Response (or_num (status err) 500)
       (ErrorJson (or_str (code err) ''INTERNAL'') (or_str (message err) ''Unexpected error''))"

section \<open>Slug generator\<close>

text \<open>
  The random source: \<^verbatim>\<open>crypto.randomBytes(n)\<close> returns the next \<^verbatim>\<open>n\<close> bytes of an
  unending supply, here a function from positions to bytes; the rest of the supply is
  returned with them. The size is a count of bytes, a natural number; the limit that the
  platform puts on the size of a buffer is not modelled.
\<close>

type_synonym rng = "nat \<Rightarrow> 8 word"

definition randomBytes :: "nat \<Rightarrow> rng \<Rightarrow> 8 word list \<times> rng" where
  "randomBytes n r = (map r [0..<n], \<lambda>i. r (i + n))"

definition BASE62_CHARS :: string where
  "BASE62_CHARS = ''0123456789ABCDEFGHIJKLMNOPQRSTUVWXYZabcdefghijklmnopqrstuvwxyz''"

text \<open>The \<^verbatim>\<open>for\<close> loop of \<^verbatim>\<open>randomSlug\<close>, from index \<^verbatim>\<open>i\<close> with the result so far.\<close>

function slug_loop :: "8 word list \<Rightarrow> nat \<Rightarrow> nat \<Rightarrow> string \<Rightarrow> string" where
  "slug_loop bytes len i result =
     (if i < len
      then slug_loop bytes len (i + 1)
             (result @ [BASE62_CHARS ! (unat (bytes ! i) mod length BASE62_CHARS)])
      else result)"
  by pat_completeness auto
termination
  by (relation "measure (\<lambda>(bytes, len, i, result). len - i)") auto

declare slug_loop.simps [simp del]

definition randomSlug :: "nat \<Rightarrow> rng \<Rightarrow> string \<times> rng" where
  "randomSlug len r = (case randomBytes len r of (bytes, r') \<Rightarrow> (slug_loop bytes len 0 [], r'))"

text \<open>\<^verbatim>\<open>randomSlug()\<close>: the default length.\<close>

definition randomSlug_default :: "rng \<Rightarrow> string \<times> rng" where
  "randomSlug_default r = randomSlug 7 r"

section \<open>Validators\<close>

text \<open>
  \<^verbatim>\<open>createLinkSchema\<close>. The slug pattern is \<^verbatim>\<open>^[A-Za-z0-9_-]{1,64}$\<close>. Whether a string is
  an absolute URL with the protocol http or https is decided by zod and the URL parser
  of the platform; that check is the parameter \<open>url_ok\<close>.
\<close>

record create_body =
  body_targetUrl :: string
  body_slug :: "string option"

definition slug_char :: "char \<Rightarrow> bool" where
  "slug_char c = (c \<in> set (BASE62_CHARS @ ''_-''))"

definition slug_ok :: "string \<Rightarrow> bool" where
  "slug_ok s = (1 \<le> length s \<and> length s \<le> 64 \<and> list_all slug_char s)"

definition parseCreateLink :: "(string \<Rightarrow> bool) \<Rightarrow> create_body \<Rightarrow> thrown + create_body" where
  "parseCreateLink url_ok b =
     (if url_ok (body_targetUrl b) \<and> (case body_slug b of None \<Rightarrow> True | Some s \<Rightarrow> slug_ok s)
      then Inr b
      else Inl \<lparr>status = Some 400, code = Some ''VALIDATION_ERROR'',
                message = Some ''Invalid request data''\<rparr>)"

text \<open>
  \<^verbatim>\<open>dateRangeSchema\<close>. A query parameter is absent, or a string that zod's ISO datetime
  check rejects, or a string that it accepts; for an accepted string the model keeps the
  time value that \<^verbatim>\<open>new Date(string)\<close> gives, which is all the code reads of it. An accepted
  string is never empty, so it is truthy.
\<close>

datatype qparam = Absent | Malformed | IsoDatetime instant

record date_query =
  query_from :: qparam
  query_to :: qparam

record date_range =
  range_from :: "instant option"
  range_to :: "instant option"

definition validated :: "qparam \<Rightarrow> instant option" where
  "validated p = (case p of IsoDatetime t \<Rightarrow> Some t | _ \<Rightarrow> None)"

definition parseDateRange :: "date_query \<Rightarrow> thrown + date_range" where
  "parseDateRange q =
     (if query_from q = Malformed \<or> query_to q = Malformed
      then Inl \<lparr>status = Some 400, code = Some ''VALIDATION_ERROR'',
                message = Some ''Invalid date range parameters''\<rparr>
      else Inr \<lparr>range_from = validated (query_from q), range_to = validated (query_to q)\<rparr>)"

section \<open>Date range normalizer\<close>

text \<open>
  \<^verbatim>\<open>normalizeRange\<close>, with the clock reading \<^verbatim>\<open>new Date()\<close> as the argument \<open>now\<close>. The source
  returns the two dates as ISO strings and its callers turn them back into dates; that
  round trip is the identity on time values, so the model returns the time values.
\<close>

definition normalizeRange :: "instant \<Rightarrow> date_range \<Rightarrow> thrown + (instant \<times> instant)" where
  "normalizeRange now dateRange =
     (let defaultTo = setUTCHours 23 59 59 999 now;
          defaultFrom = setUTCHours 0 0 0 0 (setUTCDate_minus 30 now);
          fromDate = (case range_from dateRange of Some t \<Rightarrow> t | None \<Rightarrow> defaultFrom);
          toDate = (case range_to dateRange of Some t \<Rightarrow> t | None \<Rightarrow> defaultTo)
      in if fromDate > toDate
         then Inl (js_Error ''From date cannot be after to date'')
         else Inr (fromDate, toDate))"

section \<open>The store: Prisma operations\<close>

record db_error =
  db_code :: string
  db_target :: "string list"
  db_message :: string

definition thrown_of_db :: "db_error \<Rightarrow> thrown" where
  "thrown_of_db e = \<lparr>status = None, code = Some (db_code e), message = Some (db_message e)\<rparr>"

definition link_findUnique_id :: "store \<Rightarrow> nat \<Rightarrow> link option" where
  "link_findUnique_id st i = find (\<lambda>l. link_id l = i) (links st)"

definition link_findUnique_slug :: "store \<Rightarrow> string \<Rightarrow> link option" where
  "link_findUnique_slug st s = find (\<lambda>l. slug l = s) (links st)"

text \<open>
  \<^verbatim>\<open>prisma.link.create\<close>: the unique index on \<^verbatim>\<open>slug\<close> rejects a slug that a row already
  has (Prisma error P2002 with the target \<^verbatim>\<open>slug\<close>); otherwise the row is appended with a
  new identifier and the current time.
\<close>

definition link_create :: "store \<Rightarrow> string \<Rightarrow> string \<Rightarrow> instant \<Rightarrow> db_error + (link \<times> store)" where
  "link_create st s url now =
     (if \<exists>l \<in> set (links st). slug l = s
      then Inl \<lparr>db_code = ''P2002'', db_target = [''slug''],
                db_message = ''Unique constraint failed''\<rparr>
      else (let l = \<lparr>link_id = next_id st, slug = s, targetUrl = url, createdAt = now\<rparr>
            in Inr (l, st\<lparr>links := links st @ [l], next_id := Suc (next_id st)\<rparr>)))"

text \<open>
  \<^verbatim>\<open>prisma.click.create\<close>: the foreign key rejects a \<^verbatim>\<open>linkId\<close> that no link has (P2003);
  otherwise the row is appended with a new identifier and the current time.
\<close>

definition click_create :: "store \<Rightarrow> nat \<Rightarrow> string \<Rightarrow> instant \<Rightarrow> db_error + (click \<times> store)" where
  "click_create st lid ua now =
     (if \<exists>l \<in> set (links st). link_id l = lid
      then (let c = \<lparr>click_id = next_id st, linkId = lid, tsUtc = now, userAgent = ua\<rparr>
            in Inr (c, st\<lparr>clicks := clicks st @ [c], next_id := Suc (next_id st)\<rparr>))
      else Inl \<lparr>db_code = ''P2003'', db_target = [''linkId''],
                db_message = ''Foreign key constraint failed''\<rparr>)"

text \<open>The \<^verbatim>\<open>WHERE\<close> clause shared by the two analytics queries.\<close>

definition in_window :: "nat \<Rightarrow> instant \<Rightarrow> instant \<Rightarrow> click \<Rightarrow> bool" where
  "in_window i lo hi c = (linkId c = i \<and> lo \<le> tsUtc c \<and> tsUtc c \<le> hi)"

text \<open>\<^verbatim>\<open>prisma.click.count\<close> with \<^verbatim>\<open>linkId\<close>, \<^verbatim>\<open>gte\<close> and \<^verbatim>\<open>lte\<close>.\<close>

definition click_count :: "store \<Rightarrow> nat \<Rightarrow> instant \<Rightarrow> instant \<Rightarrow> nat" where
  "click_count st i lo hi = length (filter (in_window i lo hi) (clicks st))"

text \<open>
  The raw query of the daily handler: the rows of the window, grouped by the bucket key,
  one output row per key with the size of its group, ordered by the key.
\<close>

definition daily_query :: "store \<Rightarrow> nat \<Rightarrow> instant \<Rightarrow> instant \<Rightarrow> (calendar_date \<times> nat) list" where
  "daily_query st i lo hi =
     (let rows = filter (in_window i lo hi) (clicks st);
          days = sort (remdups (map (\<lambda>c. sql_day (tsUtc c)) rows))
      in map (\<lambda>d. (d, length (filter (\<lambda>c. sql_day (tsUtc c) = d) rows))) days)"

section \<open>Link routes\<close>

definition ensureLinkExists :: "store \<Rightarrow> nat \<Rightarrow> thrown + nat" where
  "ensureLinkExists st i =
     (case link_findUnique_id st i of
        None \<Rightarrow> Inl \<lparr>status = Some 404, code = Some ''NOT_FOUND'', message = Some ''Link not found''\<rparr>
      | Some l \<Rightarrow> Inr (link_id l))"

definition maxRetries :: nat where
  "maxRetries = 3"

definition shortUrl :: "request \<Rightarrow> string \<Rightarrow> string" where
  "shortUrl req s =
     (let protocol = or_str (hdr_x_forwarded_proto req) (if secure req then ''https'' else ''http'');
          host = or_str (hdr_host req) ''localhost:3000''
      in protocol @ ''://'' @ host @ ''/r/'' @ s)"

text \<open>
  The \<^verbatim>\<open>while\<close> loop of the create handler, entered with the current slug and retry count.
  The result is the response (\<open>None\<close> if the loop were left without one), the store and
  the rest of the random supply.
\<close>

function create_loop ::
  "store \<Rightarrow> rng \<Rightarrow> request \<Rightarrow> instant \<Rightarrow> string \<Rightarrow> bool \<Rightarrow> string \<Rightarrow> nat
     \<Rightarrow> response option \<times> store \<times> rng" where
  "create_loop st r req now url wasSlugProvided s retries =
     (if retries \<le> maxRetries then
        (case link_create st s url now of
           Inr (l, st') \<Rightarrow> (Some (Response 201 (LinkJson l (shortUrl req s))), st', r)
         | Inl dbError \<Rightarrow>
             if db_code dbError = ''P2002'' \<and> ''slug'' \<in> set (db_target dbError) then
               if wasSlugProvided then
                 (Some (Response 409 (ErrorJson ''SLUG_TAKEN'' ''Slug already exists'')), st, r)
               else if retries < maxRetries then
                 create_loop st (snd (randomSlug_default r)) req now url wasSlugProvided
                   (fst (randomSlug_default r)) (retries + 1)
               else
                 (Some (Response 500 (ErrorJson ''INTERNAL''
                    ''Unable to generate unique slug after multiple attempts'')), st, r)
             else (Some (errorHandler (thrown_of_db dbError)), st, r))
      else (None, st, r))"
  by pat_completeness auto
termination
  by (relation "measure (\<lambda>(st, r, req, now, url, p, s, retries). Suc maxRetries - retries)") auto

declare create_loop.simps [simp del]

text \<open>\<^verbatim>\<open>POST /api/v1/links\<close>.\<close>

definition post_links ::
  "(string \<Rightarrow> bool) \<Rightarrow> store \<Rightarrow> rng \<Rightarrow> instant \<Rightarrow> request \<Rightarrow> create_body
     \<Rightarrow> response option \<times> store \<times> rng" where
  "post_links url_ok st r now req b =
     (case parseCreateLink url_ok b of
        Inl e \<Rightarrow> (Some (errorHandler e), st, r)
      | Inr v \<Rightarrow>
          (let userSlug = body_slug v;
               wasSlugProvided = truthy_str userSlug;
               gen = (if truthy_str userSlug then (the userSlug, r) else randomSlug_default r)
           in create_loop st (snd gen) req now (body_targetUrl v) wasSlugProvided (fst gen) 0))"

text \<open>\<^verbatim>\<open>GET /api/v1/links/:id/analytics/summary\<close>.\<close>

definition get_analytics_summary :: "store \<Rightarrow> instant \<Rightarrow> nat \<Rightarrow> date_query \<Rightarrow> response" where
  "get_analytics_summary st now i q =
     (case ensureLinkExists st i of
        Inl e \<Rightarrow> errorHandler e
      | Inr _ \<Rightarrow>
          (case parseDateRange q of
             Inl e \<Rightarrow> errorHandler e
           | Inr dateRange \<Rightarrow>
               (case normalizeRange now dateRange of
                  Inl e \<Rightarrow> errorHandler e
                | Inr (fromISO, toISO) \<Rightarrow> Response 200 (TotalJson (click_count st i fromISO toISO)))))"

text \<open>
  \<^verbatim>\<open>GET /api/v1/links/:id/analytics/daily\<close>. The counts come back as \<^verbatim>\<open>bigint\<close> and are
  turned into numbers, which is exact below 2^53; they are natural numbers here.
\<close>

definition get_analytics_daily :: "store \<Rightarrow> instant \<Rightarrow> nat \<Rightarrow> date_query \<Rightarrow> response" where
  "get_analytics_daily st now i q =
     (case ensureLinkExists st i of
        Inl e \<Rightarrow> errorHandler e
      | Inr _ \<Rightarrow>
          (case parseDateRange q of
             Inl e \<Rightarrow> errorHandler e
           | Inr dateRange \<Rightarrow>
               (case normalizeRange now dateRange of
                  Inl e \<Rightarrow> errorHandler e
                | Inr (fromISO, toISO) \<Rightarrow> Response 200 (DailyJson (daily_query st i fromISO toISO)))))"

section \<open>Redirect route\<close>

text \<open>\<^verbatim>\<open>GET /r/:slug\<close>: the response and the store after the request.\<close>

definition get_r_slug :: "store \<Rightarrow> instant \<Rightarrow> request \<Rightarrow> string \<Rightarrow> response \<times> store" where
  "get_r_slug st now req s =
     (case link_findUnique_slug st s of
        None \<Rightarrow> (Response 404 (PlainText ''Not found''), st)
      | Some l \<Rightarrow>
          (case click_create st (link_id l)
                  (case hdr_user_agent req of None \<Rightarrow> [] | Some ua \<Rightarrow> ua) now of
             Inl e \<Rightarrow> (errorHandler (thrown_of_db e), st)
           | Inr (c, st') \<Rightarrow> (Redirect 302 (targetUrl l), st')))"

section \<open>Vocabulary of the statements\<close>

text \<open>
  The definitions of this section are not code of the repository: they name what the
  theorems below talk about.

  \<open>taken st s\<close>: some link of the store has the slug \<open>s\<close>. \<open>created st req now url s r\<close>: the
  outcome of a successful creation, that is the response 201 with the stored link and
  its short URL, the store with the link appended, and the random supply \<open>r\<close>.
  \<open>rng_after k r\<close> is the random supply after \<open>k\<close> calls of \<^verbatim>\<open>randomSlug()\<close>, and \<open>drawn k r\<close>
  the slug that call number \<open>k\<close> (counted from 0) returns. \<open>resolved_from now r\<close> and
  \<open>resolved_to now r\<close> are the boundaries of a validated range once the defaults are
  filled in, before the order check.

  \<open>reachable st\<close>: the store \<open>st\<close> can be built from the empty database by the routes that
  write (link creation, redirect), run while the server clock reads a time at or after
  1970-01-01T00:00:00Z, and by the direct \<^verbatim>\<open>prisma.link.create\<close> and \<^verbatim>\<open>prisma.click.create\<close> calls
  of the seed script and the test suites, which pass such a time as \<^verbatim>\<open>tsUtc\<close>.
\<close>

definition taken :: "store \<Rightarrow> string \<Rightarrow> bool" where
  "taken st s = (\<exists>l \<in> set (links st). slug l = s)"

definition created ::
  "store \<Rightarrow> request \<Rightarrow> instant \<Rightarrow> string \<Rightarrow> string \<Rightarrow> rng \<Rightarrow> response option \<times> store \<times> rng" where
  "created st req now url s r =
     (let l = \<lparr>link_id = next_id st, slug = s, targetUrl = url, createdAt = now\<rparr>
      in (Some (Response 201 (LinkJson l (shortUrl req s))),
          st\<lparr>links := links st @ [l], next_id := Suc (next_id st)\<rparr>, r))"

primrec rng_after :: "nat \<Rightarrow> rng \<Rightarrow> rng" where
  "rng_after 0 r = r"
| "rng_after (Suc k) r = snd (randomSlug_default (rng_after k r))"

definition drawn :: "nat \<Rightarrow> rng \<Rightarrow> string" where
  "drawn k r = fst (randomSlug_default (rng_after k r))"

definition resolved_from :: "instant \<Rightarrow> date_range \<Rightarrow> instant" where
  "resolved_from now r =
     (case range_from r of Some x \<Rightarrow> x | None \<Rightarrow> setUTCHours 0 0 0 0 (setUTCDate_minus 30 now))"

definition resolved_to :: "instant \<Rightarrow> date_range \<Rightarrow> instant" where
  "resolved_to now r =
     (case range_to r of Some x \<Rightarrow> x | None \<Rightarrow> setUTCHours 23 59 59 999 now)"

inductive reachable :: "store \<Rightarrow> bool" where
  reachable_empty: "reachable \<lparr>links = [], clicks = [], next_id = 0\<rparr>"
| reachable_post: "reachable st \<Longrightarrow> reachable (fst (snd (post_links url_ok st r now req b)))"
| reachable_redirect: "reachable st \<Longrightarrow> 0 \<le> now \<Longrightarrow> reachable (snd (get_r_slug st now req s))"
| reachable_link: "reachable st \<Longrightarrow> link_create st s url now = Inr (l, st') \<Longrightarrow> reachable st'"
| reachable_click: "reachable st \<Longrightarrow> 0 \<le> ts \<Longrightarrow> click_create st lid ua ts = Inr (c, st') \<Longrightarrow>
     reachable st'"

section \<open>Example data\<close>

text \<open>
  Concrete stores and requests at which the theorems are instantiated. The clicks of
  \<open>example_store\<close> are at 2025-01-01T10:00Z, 2025-01-01T15:00Z, 2025-01-02T09:00Z and
  2025-01-04T00:00Z; \<open>example_query\<close> asks for 2025-01-01T00:00:00.000Z to
  2025-01-03T23:59:59.999Z. The click of \<open>early_store\<close> is at 1969-12-31T12:00:00.000Z.
  The bytes of \<open>example_rng\<close> are seven 0s, seven 1s, seven 2s and so on.
\<close>

definition example_store :: store where
  "example_store =
     \<lparr>links = [\<lparr>link_id = 7, slug = ''demo'', targetUrl = ''https://example.com/x'',
                 createdAt = 1735680000000\<rparr>],
      clicks = [\<lparr>click_id = 2, linkId = 7, tsUtc = 1735725600000, userAgent = ''a''\<rparr>,
                \<lparr>click_id = 3, linkId = 7, tsUtc = 1735743600000, userAgent = ''b''\<rparr>,
                \<lparr>click_id = 4, linkId = 7, tsUtc = 1735808400000, userAgent = ''c''\<rparr>,
                \<lparr>click_id = 5, linkId = 7, tsUtc = 1735948800000, userAgent = ''d''\<rparr>],
      next_id = 6\<rparr>"

definition example_query :: date_query where
  "example_query = \<lparr>query_from = IsoDatetime 1735689600000, query_to = IsoDatetime 1735948799999\<rparr>"

definition early_store :: store where
  "early_store =
     \<lparr>links = [\<lparr>link_id = 7, slug = ''demo'', targetUrl = ''https://example.com/x'',
                 createdAt = - 50000000\<rparr>],
      clicks = [\<lparr>click_id = 2, linkId = 7, tsUtc = - 43200000, userAgent = ''a''\<rparr>],
      next_id = 3\<rparr>"

definition example_rng :: rng where
  "example_rng = (\<lambda>n. of_nat (n div 7))"

definition example_url_ok :: "string \<Rightarrow> bool" where
  "example_url_ok u = (u = ''https://example.com/x'')"

definition example_request :: request where
  "example_request = \<lparr>hdr_x_forwarded_proto = None, hdr_host = Some ''sho.rt'',
     hdr_user_agent = Some ''test-browser/1.0'', secure = False\<rparr>"

definition retry_store :: store where
  "retry_store =
     \<lparr>links = [\<lparr>link_id = 20, slug = ''0000000'', targetUrl = ''https://a.example/'', createdAt = 5\<rparr>,
               \<lparr>link_id = 21, slug = ''1111111'', targetUrl = ''https://b.example/'', createdAt = 6\<rparr>],
      clicks = [], next_id = 22\<rparr>"

definition full_store :: store where
  "full_store =
     \<lparr>links = [\<lparr>link_id = 20, slug = ''0000000'', targetUrl = ''https://a.example/'', createdAt = 5\<rparr>,
               \<lparr>link_id = 21, slug = ''1111111'', targetUrl = ''https://b.example/'', createdAt = 6\<rparr>,
               \<lparr>link_id = 22, slug = ''2222222'', targetUrl = ''https://c.example/'', createdAt = 7\<rparr>,
               \<lparr>link_id = 23, slug = ''3333333'', targetUrl = ''https://d.example/'', createdAt = 8\<rparr>],
      clicks = [], next_id = 24\<rparr>"

section \<open>Properties of the slug generator\<close>

lemma length_BASE62_CHARS: "length BASE62_CHARS = 62"
  by (simp add: BASE62_CHARS_def)

lemma distinct_BASE62_CHARS: "distinct BASE62_CHARS"
  by (simp add: BASE62_CHARS_def)

lemma slug_loop_eq:
  "i \<le> len \<Longrightarrow>
   slug_loop bytes len i result =
     result @ map (\<lambda>j. BASE62_CHARS ! (unat (bytes ! j) mod length BASE62_CHARS)) [i..<len]"
proof (induction bytes len i result rule: slug_loop.induct)
  case (1 bytes len i result)
  show ?case
  proof (cases "i < len")
    case True
    then have "[i..<len] = i # [i + 1..<len]"
      by (simp add: upt_conv_Cons)
    with True "1.IH" show ?thesis
      by (subst slug_loop.simps) simp
  next
    case False
    with "1.prems" show ?thesis
      by (subst slug_loop.simps) simp
  qed
qed

lemma randomSlug_eq:
  "randomSlug len r = (map (\<lambda>j. BASE62_CHARS ! (unat (r j) mod 62)) [0..<len], \<lambda>i. r (i + len))"
proof -
  have "slug_loop (map r [0..<len]) len 0 [] =
          map (\<lambda>j. BASE62_CHARS ! (unat (map r [0..<len] ! j) mod length BASE62_CHARS)) [0..<len]"
    using slug_loop_eq [of 0 len "map r [0..<len]" "[]"] by simp
  also have "\<dots> = map (\<lambda>j. BASE62_CHARS ! (unat (r j) mod 62)) [0..<len]"
    by (rule map_cong) (simp_all add: length_BASE62_CHARS)
  finally show ?thesis
    by (simp only: randomSlug_def randomBytes_def prod.case)
qed

text \<open>
  Claim C8. For every requested length, \<open>randomSlug\<close> returns a string of exactly that
  many characters (seven by default); the character at each position is the alphabet
  character whose index is the value of the random byte at that position modulo 62, so
  every character belongs to the alphabet of 62 distinct symbols (digits, uppercase,
  lowercase); exactly that many bytes of the random supply are used, and the function
  has no failing branch.
\<close>

theorem randomSlug_spec:
  "length (fst (randomSlug len r)) = len \<and>
   (\<forall>i<len. fst (randomSlug len r) ! i = BASE62_CHARS ! (unat (r i) mod 62)) \<and>
   set (fst (randomSlug len r)) \<subseteq> set BASE62_CHARS \<and>
   snd (randomSlug len r) = (\<lambda>i. r (i + len)) \<and>
   length (fst (randomSlug_default r)) = 7 \<and>
   length BASE62_CHARS = 62 \<and> distinct BASE62_CHARS"
proof -
  have "unat (r j) mod 62 < length BASE62_CHARS" for j
    by (simp add: length_BASE62_CHARS)
  then have "BASE62_CHARS ! (unat (r j) mod 62) \<in> set BASE62_CHARS" for j
    using nth_mem by blast
  then show ?thesis
    by (auto simp: randomSlug_eq randomSlug_default_def length_BASE62_CHARS distinct_BASE62_CHARS)
qed


text \<open>The claim at length 7 and the bytes 0, 40, 80, 120, ...: position 3 holds \<open>w\<close>.\<close>

theorem randomSlug_spec_witness:
  "(3::nat) < 7 \<and> fst (randomSlug 7 (\<lambda>n. of_nat (n * 40))) ! 3 = CHR ''w''"
proof -
  have "\<forall>i<7. fst (randomSlug 7 (\<lambda>n. of_nat (n * 40))) ! i
          = BASE62_CHARS ! (unat (of_nat (i * 40) :: 8 word) mod 62)"
    using randomSlug_spec [of 7 "\<lambda>n. of_nat (n * 40)"] by blast
  then have "fst (randomSlug 7 (\<lambda>n. of_nat (n * 40))) ! 3
          = BASE62_CHARS ! (unat (of_nat (3 * 40) :: 8 word) mod 62)"
    by simp
  also have "\<dots> = CHR ''w''"
    by (simp add: BASE62_CHARS_def)
  finally show ?thesis by simp
qed

section \<open>Properties of the date range normalizer\<close>

lemma Day_MakeDate: "0 \<le> tm \<Longrightarrow> tm < msPerDay \<Longrightarrow> Day (MakeDate d tm) = d"
  by (simp add: Day_def MakeDate_def msPerDay_def)

lemma TimeWithinDay_MakeDate:
  "0 \<le> tm \<Longrightarrow> tm < msPerDay \<Longrightarrow> TimeWithinDay (MakeDate d tm) = tm"
  by (simp add: TimeWithinDay_def MakeDate_def msPerDay_def)

lemma le_MakeDate_Day: "t \<le> MakeDate (Day t) (msPerDay - 1)"
proof -
  have "t = (t div msPerDay) * msPerDay + t mod msPerDay" by simp
  moreover have "t mod msPerDay \<le> msPerDay - 1"
    using pos_mod_bound [of msPerDay t] by (simp add: msPerDay_def)
  ultimately show ?thesis
    unfolding MakeDate_def Day_def by linarith
qed

lemma normalizeRange_defaults:
  "normalizeRange now \<lparr>range_from = None, range_to = None\<rparr> =
     Inr (MakeDate (Day now - 30) 0, MakeDate (Day now) 86399999)"
proof -
  have "Day (setUTCDate_minus 30 now) = Day now - 30"
    unfolding setUTCDate_minus_def
    by (rule Day_MakeDate) (simp_all add: TimeWithinDay_def msPerDay_def)
  then show ?thesis
    by (simp add: normalizeRange_def setUTCHours_def MakeTime_def MakeDate_def msPerDay_def Let_def)
qed

text \<open>
  Claim C7. With both boundaries omitted, normalization succeeds; \<open>to\<close> is the instant
  23:59:59.999 of the UTC day of \<open>now\<close> (the same UTC date, the last millisecond of the
  day, not before \<open>now\<close>), \<open>from\<close> is the instant 00:00:00.000 of the UTC day 30 days before
  the day of \<open>now\<close>, and \<open>from \<le> to\<close>.
\<close>

theorem normalizeRange_default_range:
  "normalizeRange now \<lparr>range_from = None, range_to = None\<rparr> =
     Inr (MakeDate (Day now - 30) (MakeTime 0 0 0 0), MakeDate (Day now) (MakeTime 23 59 59 999)) \<and>
   utc_date (MakeDate (Day now) (MakeTime 23 59 59 999)) = utc_date now \<and>
   TimeWithinDay (MakeDate (Day now) (MakeTime 23 59 59 999)) = msPerDay - 1 \<and>
   now \<le> MakeDate (Day now) (MakeTime 23 59 59 999) \<and>
   utc_date (MakeDate (Day now - 30) (MakeTime 0 0 0 0)) = utc_date now - 30 \<and>
   TimeWithinDay (MakeDate (Day now - 30) (MakeTime 0 0 0 0)) = 0 \<and>
   MakeDate (Day now - 30) (MakeTime 0 0 0 0) \<le> MakeDate (Day now) (MakeTime 23 59 59 999)"
proof -
  have t: "MakeTime 23 59 59 999 = msPerDay - 1" and z: "MakeTime 0 0 0 0 = 0"
    by (simp_all add: MakeTime_def msPerDay_def)
  have 1: "normalizeRange now \<lparr>range_from = None, range_to = None\<rparr> =
     Inr (MakeDate (Day now - 30) (MakeTime 0 0 0 0), MakeDate (Day now) (MakeTime 23 59 59 999))"
    by (simp add: normalizeRange_defaults t z msPerDay_def)
  have 2: "utc_date (MakeDate (Day now) (MakeTime 23 59 59 999)) = utc_date now"
    unfolding utc_date_def t by (rule Day_MakeDate) (simp_all add: msPerDay_def)
  have 3: "TimeWithinDay (MakeDate (Day now) (MakeTime 23 59 59 999)) = msPerDay - 1"
    unfolding t by (rule TimeWithinDay_MakeDate) (simp_all add: msPerDay_def)
  have 4: "now \<le> MakeDate (Day now) (MakeTime 23 59 59 999)"
    unfolding t by (rule le_MakeDate_Day)
  have 5: "utc_date (MakeDate (Day now - 30) (MakeTime 0 0 0 0)) = utc_date now - 30"
    unfolding utc_date_def z by (rule Day_MakeDate) (simp_all add: msPerDay_def)
  have 6: "TimeWithinDay (MakeDate (Day now - 30) (MakeTime 0 0 0 0)) = 0"
    unfolding z by (rule TimeWithinDay_MakeDate) (simp_all add: msPerDay_def)
  have 7: "MakeDate (Day now - 30) (MakeTime 0 0 0 0) \<le> MakeDate (Day now) (MakeTime 23 59 59 999)"
    unfolding t z by (simp add: MakeDate_def msPerDay_def)
  from 1 2 3 4 5 6 7 show ?thesis by blast
qed

lemma link_findUnique_id_None: "link_findUnique_id st i = None \<longleftrightarrow> i \<notin> link_id ` set (links st)"
  by (auto simp: link_findUnique_id_def find_None_iff)

lemma ensureLinkExists_unknown:
  "i \<notin> link_id ` set (links st) \<Longrightarrow>
   ensureLinkExists st i =
     Inl \<lparr>status = Some 404, code = Some ''NOT_FOUND'', message = Some ''Link not found''\<rparr>"
  using link_findUnique_id_None [of st i] by (simp add: ensureLinkExists_def)

lemma ensureLinkExists_known:
  "i \<in> link_id ` set (links st) \<Longrightarrow> ensureLinkExists st i = Inr i"
proof -
  assume "i \<in> link_id ` set (links st)"
  then obtain l where l: "link_findUnique_id st i = Some l"
    using link_findUnique_id_None [of st i] by auto
  then have "link_id l = i"
    by (auto simp: link_findUnique_id_def find_Some_iff)
  with l show ?thesis by (simp add: ensureLinkExists_def)
qed

lemma errorHandler_not_found:
  "errorHandler \<lparr>status = Some 404, code = Some ''NOT_FOUND'', message = Some ''Link not found''\<rparr>
     = Response 404 (ErrorJson ''NOT_FOUND'' ''Link not found'')"
  by (simp add: errorHandler_def or_num_def or_str_def)

lemma example_link: "7 \<in> link_id ` set (links example_store)"
  by (simp add: example_store_def)

text \<open>
  What the code does on the order of the boundaries. For every pair of resolved
  boundaries with \<open>from > to\<close>, normalization fails with the error
  \<^verbatim>\<open>Error('From date cannot be after to date')\<close>; the boundaries are never swapped or
  clamped: with \<open>from \<le> to\<close> the result is the two resolved boundaries as they are, and a
  range with \<open>from = to\<close> is accepted. The error carries that message but neither a status
  nor a code, unlike the errors of \<open>parseDateRange\<close> and \<open>ensureLinkExists\<close>, so the error
  handler answers the caller of the summary and daily routes with its defaults, the
  status 500 and the code \<^verbatim>\<open>INTERNAL\<close>.
\<close>

theorem range_order_error:
  "(resolved_to now r < resolved_from now r \<longrightarrow>
      normalizeRange now r = Inl (js_Error ''From date cannot be after to date'')) \<and>
   (resolved_from now r \<le> resolved_to now r \<longrightarrow>
      normalizeRange now r = Inr (resolved_from now r, resolved_to now r)) \<and>
   normalizeRange now \<lparr>range_from = Some x, range_to = Some x\<rparr> = Inr (x, x) \<and>
   status (js_Error ''From date cannot be after to date'') = None \<and>
   code (js_Error ''From date cannot be after to date'') = None \<and>
   errorHandler (js_Error ''From date cannot be after to date'')
     = Response 500 (ErrorJson ''INTERNAL'' ''From date cannot be after to date'') \<and>
   (i \<in> link_id ` set (links st) \<and> parseDateRange q = Inr r \<and>
    resolved_to now r < resolved_from now r \<longrightarrow>
      get_analytics_summary st now i q
        = Response 500 (ErrorJson ''INTERNAL'' ''From date cannot be after to date'') \<and>
      get_analytics_daily st now i q
        = Response 500 (ErrorJson ''INTERNAL'' ''From date cannot be after to date''))"
proof -
  let ?msg = "''From date cannot be after to date''"
  have 1: "resolved_to now r < resolved_from now r \<longrightarrow> normalizeRange now r = Inl (js_Error ?msg)"
    by (simp add: normalizeRange_def resolved_from_def resolved_to_def Let_def)
  have 2: "resolved_from now r \<le> resolved_to now r \<longrightarrow>
      normalizeRange now r = Inr (resolved_from now r, resolved_to now r)"
    by (simp add: normalizeRange_def resolved_from_def resolved_to_def Let_def)
  have 3: "normalizeRange now \<lparr>range_from = Some x, range_to = Some x\<rparr> = Inr (x, x)"
    by (simp add: normalizeRange_def Let_def)
  have 4: "status (js_Error ?msg) = None" "code (js_Error ?msg) = None"
    by (simp_all add: js_Error_def)
  have 5: "errorHandler (js_Error ?msg) = Response 500 (ErrorJson ''INTERNAL'' ?msg)"
    by (simp add: errorHandler_def js_Error_def or_num_def or_str_def)
  have 6: "i \<in> link_id ` set (links st) \<and> parseDateRange q = Inr r \<and>
    resolved_to now r < resolved_from now r \<longrightarrow>
      get_analytics_summary st now i q = Response 500 (ErrorJson ''INTERNAL'' ?msg) \<and>
      get_analytics_daily st now i q = Response 500 (ErrorJson ''INTERNAL'' ?msg)"
    using 1 5
    by (simp add: get_analytics_summary_def get_analytics_daily_def ensureLinkExists_known)
  from 1 2 3 4 5 6 show ?thesis by blast
qed

text \<open>
  The same at \<open>from = 2000 > to = 1000\<close> (normalization and the summary route of
  \<open>example_store\<close>) and at \<open>from = 1000 < to = 2000\<close>.
\<close>

theorem range_order_error_witness:
  "normalizeRange 0 \<lparr>range_from = Some 2000, range_to = Some 1000\<rparr>
     = Inl (js_Error ''From date cannot be after to date'') \<and>
   normalizeRange 0 \<lparr>range_from = Some 1000, range_to = Some 2000\<rparr> = Inr (1000, 2000) \<and>
   get_analytics_summary example_store 0 7
       \<lparr>query_from = IsoDatetime 2000, query_to = IsoDatetime 1000\<rparr>
     = Response 500 (ErrorJson ''INTERNAL'' ''From date cannot be after to date'')"
proof -
  let ?q = "\<lparr>query_from = IsoDatetime 2000, query_to = IsoDatetime 1000\<rparr>"
  let ?r = "\<lparr>range_from = Some 2000, range_to = Some 1000\<rparr>"
  let ?r' = "\<lparr>range_from = Some 1000, range_to = Some 2000\<rparr>"
  have p: "parseDateRange ?q = Inr ?r"
    by (simp add: parseDateRange_def validated_def)
  have lt: "resolved_to 0 ?r < resolved_from 0 ?r"
    by (simp add: resolved_from_def resolved_to_def)
  have le: "resolved_from 0 ?r' \<le> resolved_to 0 ?r'"
       "resolved_from 0 ?r' = 1000" "resolved_to 0 ?r' = 2000"
    by (simp_all add: resolved_from_def resolved_to_def)
  from range_order_error [where now = 0 and r = ?r and i = 7 and st = example_store and q = ?q]
    example_link p lt
  have a: "normalizeRange 0 ?r = Inl (js_Error ''From date cannot be after to date'')"
    and c: "get_analytics_summary example_store 0 7 ?q
       = Response 500 (ErrorJson ''INTERNAL'' ''From date cannot be after to date'')"
    by blast+
  from range_order_error [where now = 0 and r = ?r'] le
  have b: "normalizeRange 0 ?r' = Inr (1000, 2000)"
    by simp
  from a b c show ?thesis by blast
qed

text \<open>
  Claim C5, at a request the dashboard can send: the link 7 of \<open>example_store\<close> with
  \<open>from\<close> = 2025-01-02T00:00:00.000Z and \<open>to\<close> = 2025-01-01T00:00:00.000Z. Normalization
  fails with the range-order error, which has no status and no code, and both analytics
  routes answer 500 \<^verbatim>\<open>INTERNAL\<close>, the answer that \<open>errorHandler\<close> keeps for internal errors
  and that exhausted slug retries get, where the claim asks for an error of the kind
  \<^verbatim>\<open>InvalidRange\<close>, a range the caller can correct.
\<close>

theorem range_error_answered_as_internal:
  "normalizeRange 1762128000000 \<lparr>range_from = Some 1735776000000, range_to = Some 1735689600000\<rparr>
     = Inl \<lparr>status = None, code = None, message = Some ''From date cannot be after to date''\<rparr> \<and>
   get_analytics_summary example_store 1762128000000 7
       \<lparr>query_from = IsoDatetime 1735776000000, query_to = IsoDatetime 1735689600000\<rparr>
     = Response 500 (ErrorJson ''INTERNAL'' ''From date cannot be after to date'') \<and>
   get_analytics_daily example_store 1762128000000 7
       \<lparr>query_from = IsoDatetime 1735776000000, query_to = IsoDatetime 1735689600000\<rparr>
     = Response 500 (ErrorJson ''INTERNAL'' ''From date cannot be after to date'')"
proof -
  let ?q = "\<lparr>query_from = IsoDatetime 1735776000000, query_to = IsoDatetime 1735689600000\<rparr>"
  let ?r = "\<lparr>range_from = Some 1735776000000, range_to = Some 1735689600000\<rparr>"
  let ?e = "\<lparr>status = None, code = None, message = Some ''From date cannot be after to date''\<rparr>"
  have p: "parseDateRange ?q = Inr ?r"
    by (simp add: parseDateRange_def validated_def)
  have n: "normalizeRange 1762128000000 ?r = Inl ?e"
    by (simp add: normalizeRange_def Let_def js_Error_def)
  have h: "errorHandler ?e = Response 500 (ErrorJson ''INTERNAL'' ''From date cannot be after to date'')"
    by (simp add: errorHandler_def or_num_def or_str_def)
  have l: "ensureLinkExists example_store 7 = Inr 7"
    using example_link by (rule ensureLinkExists_known)
  have s: "get_analytics_summary example_store 1762128000000 7 ?q
       = Response 500 (ErrorJson ''INTERNAL'' ''From date cannot be after to date'')"
    by (simp add: get_analytics_summary_def l p n h)
  have d: "get_analytics_daily example_store 1762128000000 7 ?q
       = Response 500 (ErrorJson ''INTERNAL'' ''From date cannot be after to date'')"
    by (simp add: get_analytics_daily_def l p n h)
  from n s d show ?thesis by blast
qed

section \<open>Timestamps of recorded clicks\<close>

text \<open>
  The routes keep every click timestamp at or after 1970-01-01T00:00:00Z as long as the
  server clock is: the redirect route records a click at the current time, and link
  creation does not touch the clicks. Hence no click of a reachable store is stamped
  before 1970.
\<close>

lemma get_r_slug_post_epoch:
  assumes "0 \<le> now" and "\<forall>c \<in> set (clicks st). 0 \<le> tsUtc c"
  shows "\<forall>c \<in> set (clicks (snd (get_r_slug st now req s))). 0 \<le> tsUtc c"
  using assms
  by (auto simp: get_r_slug_def click_create_def Let_def split: option.splits)

lemma create_loop_clicks:
  "clicks (fst (snd (create_loop st r req now url p s retries))) = clicks st"
proof (induction st r req now url p s retries rule: create_loop.induct)
  case (1 st r req now url wasSlugProvided s retries)
  show ?case
  proof (cases "link_create st s url now")
    case (Inr a)
    then show ?thesis
      by (subst create_loop.simps)
         (auto simp: link_create_def Let_def split: if_splits prod.splits)
  next
    case (Inl dbError)
    show ?thesis
    proof (cases "retries \<le> maxRetries \<and> db_code dbError = ''P2002'' \<and>
                  ''slug'' \<in> set (db_target dbError) \<and>
                  \<not> wasSlugProvided \<and> retries < maxRetries")
      case True
      with Inl "1.IH" [of dbError] show ?thesis
        by (subst create_loop.simps) simp
    next
      case False
      with Inl show ?thesis
        by (subst create_loop.simps) auto
    qed
  qed
qed

lemma post_links_clicks:
  "clicks (fst (snd (post_links url_ok st r now req b))) = clicks st"
  by (cases "parseCreateLink url_ok b")
     (simp_all add: post_links_def Let_def create_loop_clicks)

lemma reachable_post_epoch: "reachable st \<Longrightarrow> \<forall>c \<in> set (clicks st). 0 \<le> tsUtc c"
proof (induction rule: reachable.induct)
  case reachable_empty
  show ?case by simp
next
  case (reachable_post st url_ok r now req b)
  then show ?case by (simp only: post_links_clicks)
next
  case (reachable_redirect st now req s)
  then show ?case by (intro get_r_slug_post_epoch)
next
  case (reachable_link st s url now l st')
  then show ?case
    by (auto simp: link_create_def Let_def split: if_splits)
next
  case (reachable_click st ts lid ua c st')
  then show ?case
    by (auto simp: click_create_def Let_def split: if_splits)
qed

section \<open>Properties of the analytics routes\<close>

lemma sqlite_div_1000_neg:
  assumes "ts < 0"
  shows "sqlite_div ts 1000 = (if ts mod 1000 = 0 then ts div 1000 else ts div 1000 + 1)"
proof -
  have "sqlite_div ts 1000 = - ((- ts) div 1000)"
    using assms by (simp add: sqlite_div_def)
  also have "(- ts) div 1000 = (if ts mod 1000 = 0 then - (ts div 1000) else - (ts div 1000) - 1)"
    by (rule zdiv_zminus1_eq_if) simp
  finally show ?thesis by simp
qed

lemma utc_date_seconds: "utc_date ts = ts div 1000 div 86400"
proof -
  have "ts div (1000 * 86400) = ts div 1000 div 86400"
    by (rule zdiv_zmult2_eq) simp
  then show ?thesis by (simp add: utc_date_def Day_def msPerDay_def)
qed

lemma TimeWithinDay_seconds: "TimeWithinDay ts = 1000 * (ts div 1000 mod 86400) + ts mod 1000"
proof -
  have "ts mod (1000 * 86400) = 1000 * (ts div 1000 mod 86400) + ts mod 1000"
    by (rule zmod_zmult2_eq) simp
  then show ?thesis by (simp add: TimeWithinDay_def msPerDay_def)
qed

lemma succ_div_86400:
  fixes q :: int
  shows "(q + 1) div 86400 = (if q mod 86400 = 86399 then q div 86400 + 1 else q div 86400)"
proof -
  define d where "d = q div 86400"
  define r where "r = q mod 86400"
  have dr: "q div 86400 = d" "q mod 86400 = r"
    by (simp_all add: d_def r_def)
  have "q = 86400 * d + r"
    unfolding d_def r_def by simp
  then have e: "q + 1 = r + 1 + 86400 * d"
    by simp
  have r: "0 \<le> r" "r < 86400"
    unfolding r_def by simp_all
  have "(r + 1 + 86400 * d) div 86400 = d + (r + 1) div 86400"
    by (rule div_mult_self2) simp
  with e have s: "(q + 1) div 86400 = d + (r + 1) div 86400"
    by (simp only:)
  show ?thesis
  proof (cases "r = 86399")
    case True
    then have "(r + 1) div 86400 = 1" by simp
    with s True show ?thesis
      by (simp add: dr)
  next
    case False
    with r have "0 \<le> r + 1" "r + 1 < 86400" by simp_all
    then have "(r + 1) div 86400 = 0"
      by (rule div_pos_pos_trivial)
    with s False show ?thesis
      by (simp add: dr)
  qed
qed

text \<open>
  The bucket key of the query against the UTC date. They agree at every instant from
  1970 on. Before 1970 the truncating division rounds the seconds up, and the key is the
  next day exactly for the instants of the last 999 ms before a UTC midnight.
\<close>

lemma sql_day_eq_utc_date_iff:
  "sql_day ts = utc_date ts \<longleftrightarrow> 0 \<le> ts \<or> TimeWithinDay ts \<le> 86399000"
proof (cases "0 \<le> ts")
  case True
  then have "sqlite_div ts 1000 = ts div 1000"
    by (cases "ts = 0") (simp_all add: sqlite_div_def)
  with True show ?thesis
    by (simp add: sql_day_def date_unixepoch_def utc_date_seconds)
next
  case False
  then have neg: "ts < 0" by simp
  let ?q = "ts div 1000" and ?m = "ts mod 1000"
  have m: "0 \<le> ?m" "?m < 1000" by simp_all
  have r: "0 \<le> ?q mod 86400" "?q mod 86400 < 86400" by simp_all
  show ?thesis
  proof (cases "?m = 0")
    case True
    with neg have "sql_day ts = utc_date ts"
      by (simp add: sql_day_def date_unixepoch_def utc_date_seconds sqlite_div_1000_neg)
    moreover from True r have "TimeWithinDay ts \<le> 86399000"
      unfolding TimeWithinDay_seconds by linarith
    ultimately show ?thesis by simp
  next
    case nz: False
    with neg have s: "sql_day ts = (?q + 1) div 86400"
      by (simp add: sql_day_def date_unixepoch_def sqlite_div_1000_neg)
    show ?thesis
    proof (cases "?q mod 86400 = 86399")
      case True
      then have "sql_day ts \<noteq> utc_date ts"
        unfolding s utc_date_seconds succ_div_86400 by simp
      moreover from True nz m have "\<not> TimeWithinDay ts \<le> 86399000"
        unfolding TimeWithinDay_seconds by linarith
      ultimately show ?thesis using neg by simp
    next
      case False
      then have "sql_day ts = utc_date ts"
        unfolding s utc_date_seconds succ_div_86400 by simp
      moreover from False r m have "TimeWithinDay ts \<le> 86399000"
        unfolding TimeWithinDay_seconds by linarith
      ultimately show ?thesis by simp
    qed
  qed
qed

lemma sql_day_utc: "0 \<le> ts \<or> TimeWithinDay ts \<le> 86399000 \<Longrightarrow> sql_day ts = utc_date ts"
  by (simp add: sql_day_eq_utc_date_iff)

lemma length_filter_key: "length (filter (\<lambda>x. k x = d) xs) = count_list (map k xs) d"
  by (induction xs) auto

lemma sum_group_sizes:
  "sum_list (map (\<lambda>d. length (filter (\<lambda>x. k x = d) xs)) (sort (remdups (map k xs)))) = length xs"
proof -
  let ?ks = "map k xs"
  have "sum_list (map (count_list ?ks) (sort (remdups ?ks))) = sum (count_list ?ks) (set (sort (remdups ?ks)))"
    by (rule sum_list_distinct_conv_sum_set) simp
  also have "\<dots> = sum (count_list ?ks) (set ?ks)" by simp
  also have "\<dots> = length ?ks" by (rule sum_count_set) simp_all
  finally show ?thesis by (simp add: length_filter_key)
qed

lemma daily_query_days:
  "map fst (daily_query st i lo hi) =
     sort (remdups (map (\<lambda>c. sql_day (tsUtc c)) (filter (in_window i lo hi) (clicks st))))"
  by (simp add: daily_query_def Let_def comp_def)

lemma daily_query_sorted: "sorted_wrt (<) (map fst (daily_query st i lo hi))"
  unfolding daily_query_days by (simp add: strict_sorted_iff)

lemma daily_query_sum: "sum_list (map snd (daily_query st i lo hi)) = click_count st i lo hi"
proof -
  let ?rows = "filter (in_window i lo hi) (clicks st)"
  let ?key = "\<lambda>c. sql_day (tsUtc c)"
  have "map snd (daily_query st i lo hi) =
          map (\<lambda>d. length (filter (\<lambda>c. ?key c = d) ?rows)) (sort (remdups (map ?key ?rows)))"
    by (simp add: daily_query_def Let_def comp_def del: filter_filter)
  then show ?thesis
    by (simp only: sum_group_sizes click_count_def)
qed

lemma summary_unknown:
  "i \<notin> link_id ` set (links st) \<Longrightarrow>
   get_analytics_summary st now i q = Response 404 (ErrorJson ''NOT_FOUND'' ''Link not found'')"
  by (simp add: get_analytics_summary_def ensureLinkExists_unknown errorHandler_not_found)

lemma daily_unknown:
  "i \<notin> link_id ` set (links st) \<Longrightarrow>
   get_analytics_daily st now i q = Response 404 (ErrorJson ''NOT_FOUND'' ''Link not found'')"
  by (simp add: get_analytics_daily_def ensureLinkExists_unknown errorHandler_not_found)

lemma summary_known:
  "i \<in> link_id ` set (links st) \<Longrightarrow> parseDateRange q = Inr r \<Longrightarrow> normalizeRange now r = Inr (f, t) \<Longrightarrow>
   get_analytics_summary st now i q = Response 200 (TotalJson (click_count st i f t))"
  by (simp add: get_analytics_summary_def ensureLinkExists_known)

lemma daily_known:
  "i \<in> link_id ` set (links st) \<Longrightarrow> parseDateRange q = Inr r \<Longrightarrow> normalizeRange now r = Inr (f, t) \<Longrightarrow>
   get_analytics_daily st now i q = Response 200 (DailyJson (daily_query st i f t))"
  by (simp add: get_analytics_daily_def ensureLinkExists_known)

lemma daily_query_utc:
  assumes "\<forall>c \<in> set (clicks st). in_window i lo hi c \<longrightarrow>
             0 \<le> tsUtc c \<or> TimeWithinDay (tsUtc c) \<le> 86399000"
  shows "daily_query st i lo hi =
     map (\<lambda>d. (d, length (filter (\<lambda>c. in_window i lo hi c \<and> utc_date (tsUtc c) = d) (clicks st))))
       (sort (remdups (map (\<lambda>c. utc_date (tsUtc c)) (filter (in_window i lo hi) (clicks st)))))"
proof -
  have e: "sql_day (tsUtc c) = utc_date (tsUtc c)"
    if "c \<in> set (clicks st)" and "in_window i lo hi c" for c
    using assms that by (intro sql_day_utc) blast
  have k: "map (\<lambda>c. sql_day (tsUtc c)) (filter (in_window i lo hi) (clicks st))
         = map (\<lambda>c. utc_date (tsUtc c)) (filter (in_window i lo hi) (clicks st))"
    by (intro map_cong refl) (simp add: e)
  have f: "filter (\<lambda>c. sql_day (tsUtc c) = d) (filter (in_window i lo hi) (clicks st))
         = filter (\<lambda>c. in_window i lo hi c \<and> utc_date (tsUtc c) = d) (clicks st)" for d
    unfolding filter_filter
    by (intro filter_cong refl) (auto simp: e)
  show ?thesis
    unfolding daily_query_def Let_def k f ..
qed

lemma example_parse:
  "parseDateRange example_query = Inr \<lparr>range_from = Some 1735689600000, range_to = Some 1735948799999\<rparr>"
  by (simp add: parseDateRange_def example_query_def validated_def)

lemma example_normalize:
  "normalizeRange 0 \<lparr>range_from = Some 1735689600000, range_to = Some 1735948799999\<rparr>
     = Inr (1735689600000, 1735948799999)"
  by (simp add: normalizeRange_def Let_def)

lemma example_daily_query:
  "daily_query example_store 7 1735689600000 1735948799999 = [(20089, 2), (20090, 1)]"
  by (simp add: daily_query_def example_store_def in_window_def sql_day_def sqlite_div_def
      date_unixepoch_def Let_def)

text \<open>
  Claim C1. For an existing link and a normalized range \<open>[from, to]\<close>, the daily route
  answers 200 with a sequence of (day, count) rows that is strictly ascending by day; the
  days are exactly the UTC calendar dates of the link's clicks within the range (so no
  day without a click appears); and each count is the number of the link's clicks within
  the range whose UTC calendar date is that day, hence at least 1.

  The fourth hypothesis describes the click timestamps the code receives. Every click is
  stamped with the server clock, so it is at or after 1970-01-01T00:00:00Z
  (\<open>reachable_post_epoch\<close>); the hypothesis admits these and every earlier instant too,
  except the last 999 ms before a UTC midnight before 1970, the only instants at which the
  key of the query is not the UTC date (\<open>sql_day_eq_utc_date_iff\<close>).
\<close>

theorem daily_buckets:
  assumes "i \<in> link_id ` set (links st)"
    and "parseDateRange q = Inr r"
    and "normalizeRange now r = Inr (f, t)"
    and "\<forall>c \<in> set (clicks st). in_window i f t c \<longrightarrow>
           0 \<le> tsUtc c \<or> TimeWithinDay (tsUtc c) \<le> 86399000"
  shows "\<exists>rows. get_analytics_daily st now i q = Response 200 (DailyJson rows) \<and>
           sorted_wrt (<) (map fst rows) \<and>
           fst ` set rows = utc_date ` tsUtc ` {c \<in> set (clicks st). in_window i f t c} \<and>
           (\<forall>(d, n) \<in> set rows.
              n = length (filter (\<lambda>c. in_window i f t c \<and> utc_date (tsUtc c) = d) (clicks st)) \<and>
              0 < n)"
proof -
  let ?rows = "daily_query st i f t"
  let ?cnt = "\<lambda>d. length (filter (\<lambda>c. in_window i f t c \<and> utc_date (tsUtc c) = d) (clicks st))"
  let ?days = "sort (remdups (map (\<lambda>c. utc_date (tsUtc c)) (filter (in_window i f t) (clicks st))))"
  have rows: "?rows = map (\<lambda>d. (d, ?cnt d)) ?days"
    using assms(4) by (rule daily_query_utc)
  have days: "set ?days = utc_date ` tsUtc ` {c \<in> set (clicks st). in_window i f t c}"
    by auto
  have 1: "get_analytics_daily st now i q = Response 200 (DailyJson ?rows)"
    using assms(1-3) by (rule daily_known)
  have 2: "sorted_wrt (<) (map fst ?rows)"
    by (rule daily_query_sorted)
  have "map fst ?rows = ?days"
    unfolding rows by (simp add: comp_def)
  then have "fst ` set ?rows = set ?days"
    by (metis set_map)
  with days have 3: "fst ` set ?rows = utc_date ` tsUtc ` {c \<in> set (clicks st). in_window i f t c}"
    by simp
  have 4: "\<forall>(d, n) \<in> set ?rows. n = ?cnt d \<and> 0 < n"
  proof (clarify)
    fix d n assume "(d, n) \<in> set ?rows"
    then have n: "n = ?cnt d" and d: "d \<in> set ?days"
      unfolding rows by auto
    from d obtain c where "c \<in> set (clicks st)" "in_window i f t c" "utc_date (tsUtc c) = d"
      unfolding days by auto
    then have "c \<in> set (filter (\<lambda>c. in_window i f t c \<and> utc_date (tsUtc c) = d) (clicks st))"
      by simp
    then have "0 < ?cnt d"
      by (metis length_pos_if_in_set)
    with n show "n = ?cnt d \<and> 0 < n" by simp
  qed
  from 1 2 3 4 show ?thesis by blast
qed

text \<open>
  The claim at \<open>example_store\<close>: two clicks on 2025-01-01 (day 20089), one on 2025-01-02
  (day 20090), and the click of 2025-01-04 outside the range. And at \<open>early_store\<close> with
  the range from 1969-12-31T00:00Z to 1970-01-01T00:00Z: one click on 1969-12-31
  (day -1).
\<close>

theorem daily_buckets_witness:
  "get_analytics_daily example_store 0 7 example_query = Response 200 (DailyJson [(20089, 2), (20090, 1)]) \<and>
   (\<exists>rows. get_analytics_daily example_store 0 7 example_query = Response 200 (DailyJson rows) \<and>
           sorted_wrt (<) (map fst rows) \<and>
           fst ` set rows = utc_date ` tsUtc `
             {c \<in> set (clicks example_store). in_window 7 1735689600000 1735948799999 c} \<and>
           (\<forall>(d, n) \<in> set rows.
              n = length (filter (\<lambda>c. in_window 7 1735689600000 1735948799999 c \<and> utc_date (tsUtc c) = d)
                    (clicks example_store)) \<and>
              0 < n)) \<and>
   get_analytics_daily early_store 0 7
       \<lparr>query_from = IsoDatetime (- 86400000), query_to = IsoDatetime 0\<rparr>
     = Response 200 (DailyJson [(- 1, 1)]) \<and>
   map (\<lambda>c. utc_date (tsUtc c)) (filter (in_window 7 (- 86400000) 0) (clicks early_store)) = [- 1]"
proof -
  have ok: "\<forall>c \<in> set (clicks example_store). in_window 7 1735689600000 1735948799999 c \<longrightarrow>
              0 \<le> tsUtc c \<or> TimeWithinDay (tsUtc c) \<le> 86399000"
    by (simp add: example_store_def)
  have "get_analytics_daily example_store 0 7 example_query
          = Response 200 (DailyJson (daily_query example_store 7 1735689600000 1735948799999))"
    using example_link example_parse example_normalize by (rule daily_known)
  then have 1: "get_analytics_daily example_store 0 7 example_query
          = Response 200 (DailyJson [(20089, 2), (20090, 1)])"
    by (simp only: example_daily_query)
  note 2 = daily_buckets [OF example_link example_parse example_normalize ok]
  let ?q = "\<lparr>query_from = IsoDatetime (- 86400000), query_to = IsoDatetime 0\<rparr>"
  have l: "7 \<in> link_id ` set (links early_store)"
    by (simp add: early_store_def)
  have p: "parseDateRange ?q = Inr \<lparr>range_from = Some (- 86400000), range_to = Some 0\<rparr>"
    by (simp add: parseDateRange_def validated_def)
  have n: "normalizeRange 0 \<lparr>range_from = Some (- 86400000), range_to = Some 0\<rparr> = Inr (- 86400000, 0)"
    by (simp add: normalizeRange_def Let_def)
  have ok': "\<forall>c \<in> set (clicks early_store). in_window 7 (- 86400000) 0 c \<longrightarrow>
              0 \<le> tsUtc c \<or> TimeWithinDay (tsUtc c) \<le> 86399000"
    by (simp add: early_store_def TimeWithinDay_def msPerDay_def)
  have u: "map (\<lambda>c. utc_date (tsUtc c)) (filter (in_window 7 (- 86400000) 0) (clicks early_store)) = [- 1]"
    by (simp add: early_store_def in_window_def utc_date_def Day_def msPerDay_def)
  have c: "length (filter (\<lambda>c. in_window 7 (- 86400000) 0 c \<and> utc_date (tsUtc c) = - 1)
             (clicks early_store)) = 1"
    by (simp add: early_store_def in_window_def utc_date_def Day_def msPerDay_def)
  obtain rows where
    r: "get_analytics_daily early_store 0 7 ?q = Response 200 (DailyJson rows)" and
    s: "sorted_wrt (<) (map fst rows)" and
    d: "fst ` set rows = utc_date ` tsUtc ` {c \<in> set (clicks early_store). in_window 7 (- 86400000) 0 c}" and
    k: "\<forall>(d, n) \<in> set rows.
          n = length (filter (\<lambda>c. in_window 7 (- 86400000) 0 c \<and> utc_date (tsUtc c) = d)
                (clicks early_store)) \<and> 0 < n"
    using daily_buckets [OF l p n ok'] by blast
  have "utc_date ` tsUtc ` {c \<in> set (clicks early_store). in_window 7 (- 86400000) 0 c}
          = set (map (\<lambda>c. utc_date (tsUtc c)) (filter (in_window 7 (- 86400000) 0) (clicks early_store)))"
    by auto
  with d u have fs: "fst ` set rows = {- 1}"
    by simp
  have "rows = [(- 1, 1)]"
  proof (cases rows)
    case Nil
    with fs show ?thesis by simp
  next
    case (Cons x xs)
    obtain a b where x: "x = (a, b)" by (cases x)
    from fs Cons x have a: "a = - 1" by auto
    with k Cons x c have b: "b = 1" by auto
    have "xs = []"
    proof (rule ccontr)
      assume "xs \<noteq> []"
      then obtain y ys where ys: "xs = y # ys" by (cases xs) auto
      from fs Cons ys have "fst y = - 1" by auto
      with s Cons x a ys show False by auto
    qed
    with Cons x a b show ?thesis by simp
  qed
  with r have 3: "get_analytics_daily early_store 0 7 ?q = Response 200 (DailyJson [(- 1, 1)])"
    by simp
  from 1 2 3 u show ?thesis by blast
qed

text \<open>
  Claim C9. For an existing link and a normalized range, the daily route and the summary
  route both answer 200 over the same store, and the counts of the daily rows add up to
  the total of the summary.
\<close>

theorem daily_sum_is_total:
  assumes "i \<in> link_id ` set (links st)"
    and "parseDateRange q = Inr r"
    and "normalizeRange now r = Inr (f, t)"
  shows "\<exists>rows total.
           get_analytics_daily st now i q = Response 200 (DailyJson rows) \<and>
           get_analytics_summary st now i q = Response 200 (TotalJson total) \<and>
           sum_list (map snd rows) = total"
  using daily_known [OF assms] summary_known [OF assms] daily_query_sum [of st i f t]
  by blast

text \<open>The claim at \<open>example_store\<close>: the daily counts 2 and 1, the total 3.\<close>

theorem daily_sum_is_total_witness:
  "get_analytics_daily example_store 0 7 example_query = Response 200 (DailyJson [(20089, 2), (20090, 1)]) \<and>
   get_analytics_summary example_store 0 7 example_query = Response 200 (TotalJson 3)"
proof -
  obtain rows total where
    d: "get_analytics_daily example_store 0 7 example_query = Response 200 (DailyJson rows)" and
    s: "get_analytics_summary example_store 0 7 example_query = Response 200 (TotalJson total)" and
    e: "sum_list (map snd rows) = total"
    using daily_sum_is_total [OF example_link example_parse example_normalize] by blast
  have "get_analytics_daily example_store 0 7 example_query
          = Response 200 (DailyJson (daily_query example_store 7 1735689600000 1735948799999))"
    using example_link example_parse example_normalize by (rule daily_known)
  with d have "rows = [(20089, 2), (20090, 1)]"
    by (simp add: example_daily_query)
  with d s e show ?thesis by simp
qed

lemma normalizeRange_ordered: "normalizeRange now r = Inr (f, t) \<Longrightarrow> f \<le> t"
  by (auto simp: normalizeRange_def Let_def split: if_splits)

lemma click_count_append:
  "click_count (st\<lparr>clicks := clicks st @ cs\<rparr>) i lo hi
     = click_count st i lo hi + length (filter (in_window i lo hi) cs)"
  by (simp add: click_count_def)

text \<open>
  Claim C6. For an existing link and a normalized range \<open>[from, to]\<close>, the summary total is
  the number of the link's clicks with \<open>from \<le> timestamp \<le> to\<close>, and it is inclusive on
  both ends: recording one more click of the link at exactly \<open>from\<close> and one more at exactly
  \<open>to\<close> raises the total by two.
\<close>

theorem summary_counts_both_ends:
  assumes "i \<in> link_id ` set (links st)"
    and "parseDateRange q = Inr r"
    and "normalizeRange now r = Inr (f, t)"
    and "linkId a = i" and "tsUtc a = f"
    and "linkId b = i" and "tsUtc b = t"
  shows "get_analytics_summary (st\<lparr>clicks := clicks st @ [a, b]\<rparr>) now i q
           = Response 200 (TotalJson (click_count st i f t + 2)) \<and>
         get_analytics_summary st now i q = Response 200 (TotalJson (click_count st i f t)) \<and>
         click_count st i f t = length (filter (\<lambda>c. linkId c = i \<and> f \<le> tsUtc c \<and> tsUtc c \<le> t) (clicks st))"
proof -
  have ft: "f \<le> t"
    using assms(3) by (rule normalizeRange_ordered)
  have "i \<in> link_id ` set (links (st\<lparr>clicks := clicks st @ [a, b]\<rparr>))"
    using assms(1) by simp
  then have "get_analytics_summary (st\<lparr>clicks := clicks st @ [a, b]\<rparr>) now i q
      = Response 200 (TotalJson (click_count (st\<lparr>clicks := clicks st @ [a, b]\<rparr>) i f t))"
    using assms(2,3) by (rule summary_known)
  moreover have "length (filter (in_window i f t) [a, b]) = 2"
    using assms(4-7) ft by (simp add: in_window_def)
  ultimately have 1: "get_analytics_summary (st\<lparr>clicks := clicks st @ [a, b]\<rparr>) now i q
           = Response 200 (TotalJson (click_count st i f t + 2))"
    by (simp only: click_count_append)
  have 2: "get_analytics_summary st now i q = Response 200 (TotalJson (click_count st i f t))"
    using assms(1-3) by (rule summary_known)
  have 3: "click_count st i f t = length (filter (\<lambda>c. linkId c = i \<and> f \<le> tsUtc c \<and> tsUtc c \<le> t) (clicks st))"
    by (simp add: click_count_def in_window_def [abs_def])
  from 1 2 3 show ?thesis by blast
qed

text \<open>
  The claim at \<open>example_store\<close> and the clicks at 2025-01-01T00:00:00.000Z and
  2025-01-03T23:59:59.999Z: the total goes from 3 to 5.
\<close>

theorem summary_counts_both_ends_witness:
  "get_analytics_summary
     (example_store\<lparr>clicks := clicks example_store @
        [\<lparr>click_id = 12, linkId = 7, tsUtc = 1735689600000, userAgent = ''e''\<rparr>,
         \<lparr>click_id = 13, linkId = 7, tsUtc = 1735948799999, userAgent = ''f''\<rparr>]\<rparr>) 0 7 example_query
     = Response 200 (TotalJson 5) \<and>
   get_analytics_summary example_store 0 7 example_query = Response 200 (TotalJson 3)"
proof -
  have c: "click_count example_store 7 1735689600000 1735948799999 = 3"
    by (simp add: click_count_def example_store_def in_window_def)
  show ?thesis
    using summary_counts_both_ends [OF example_link example_parse example_normalize,
        of "\<lparr>click_id = 12, linkId = 7, tsUtc = 1735689600000, userAgent = ''e''\<rparr>"
           "\<lparr>click_id = 13, linkId = 7, tsUtc = 1735948799999, userAgent = ''f''\<rparr>"]
    by (simp add: c)
qed

lemma daily_query_empty:
  "\<forall>c \<in> set (clicks st). \<not> in_window i lo hi c \<Longrightarrow> daily_query st i lo hi = []"
  by (simp add: daily_query_def Let_def filter_False)

lemma click_count_empty:
  "\<forall>c \<in> set (clicks st). \<not> in_window i lo hi c \<Longrightarrow> click_count st i lo hi = 0"
  by (simp add: click_count_def filter_False)

text \<open>
  Claim C2. When no link has the identifier, the summary and daily routes answer 404
  \<^verbatim>\<open>NOT_FOUND\<close>, whatever the query parameters and the clicks are: the check comes before
  the range is parsed and before any click is read. When the link exists and none of its
  clicks lies within the normalized range, the summary route answers 200 with the total 0
  and the daily route answers 200 with the empty sequence. The two cases are told apart
  by the status.
\<close>

theorem unknown_link_vs_no_clicks:
  "(i \<notin> link_id ` set (links st) \<longrightarrow>
      get_analytics_summary st now i q = Response 404 (ErrorJson ''NOT_FOUND'' ''Link not found'') \<and>
      get_analytics_daily st now i q = Response 404 (ErrorJson ''NOT_FOUND'' ''Link not found'')) \<and>
   (i \<in> link_id ` set (links st) \<and> parseDateRange q = Inr r \<and> normalizeRange now r = Inr (f, t) \<and>
    (\<forall>c \<in> set (clicks st). \<not> in_window i f t c) \<longrightarrow>
      get_analytics_summary st now i q = Response 200 (TotalJson 0) \<and>
      get_analytics_daily st now i q = Response 200 (DailyJson []))"
proof (intro conjI impI)
  assume "i \<notin> link_id ` set (links st)"
  then show "get_analytics_summary st now i q = Response 404 (ErrorJson ''NOT_FOUND'' ''Link not found'')"
    and "get_analytics_daily st now i q = Response 404 (ErrorJson ''NOT_FOUND'' ''Link not found'')"
    by (rule summary_unknown, rule daily_unknown)
next
  assume a: "i \<in> link_id ` set (links st) \<and> parseDateRange q = Inr r \<and> normalizeRange now r = Inr (f, t) \<and>
    (\<forall>c \<in> set (clicks st). \<not> in_window i f t c)"
  then show "get_analytics_summary st now i q = Response 200 (TotalJson 0)"
    using summary_known [of i st q r now f t] click_count_empty [of st i f t] by simp
  from a show "get_analytics_daily st now i q = Response 200 (DailyJson [])"
    using daily_known [of i st q r now f t] daily_query_empty [of st i f t] by simp
qed

text \<open>
  The claim at the unknown identifier 8 (with a malformed \<open>from\<close>) and at the link 7 of
  \<open>example_store\<close> with a range that holds none of its clicks.
\<close>

theorem unknown_link_vs_no_clicks_witness:
  "get_analytics_summary example_store 0 8 \<lparr>query_from = Malformed, query_to = Absent\<rparr>
      = Response 404 (ErrorJson ''NOT_FOUND'' ''Link not found'') \<and>
   get_analytics_daily example_store 0 8 \<lparr>query_from = Malformed, query_to = Absent\<rparr>
      = Response 404 (ErrorJson ''NOT_FOUND'' ''Link not found'') \<and>
   get_analytics_summary example_store 0 7 \<lparr>query_from = IsoDatetime 5, query_to = IsoDatetime 6\<rparr>
      = Response 200 (TotalJson 0) \<and>
   get_analytics_daily example_store 0 7 \<lparr>query_from = IsoDatetime 5, query_to = IsoDatetime 6\<rparr>
      = Response 200 (DailyJson [])"
proof -
  have 1: "8 \<notin> link_id ` set (links example_store)"
    by (simp add: example_store_def)
  have 2: "parseDateRange \<lparr>query_from = IsoDatetime 5, query_to = IsoDatetime 6\<rparr>
             = Inr \<lparr>range_from = Some 5, range_to = Some 6\<rparr>"
    by (simp add: parseDateRange_def validated_def)
  have 3: "normalizeRange 0 \<lparr>range_from = Some 5, range_to = Some 6\<rparr> = Inr (5, 6)"
    by (simp add: normalizeRange_def Let_def)
  have 4: "\<forall>c \<in> set (clicks example_store). \<not> in_window 7 5 6 c"
    by (simp add: example_store_def in_window_def)
  from unknown_link_vs_no_clicks [where i = 8 and st = example_store and now = 0
        and q = "\<lparr>query_from = Malformed, query_to = Absent\<rparr>"] 1
    unknown_link_vs_no_clicks [where i = 7 and st = example_store and now = 0
        and q = "\<lparr>query_from = IsoDatetime 5, query_to = IsoDatetime 6\<rparr>"
        and r = "\<lparr>range_from = Some 5, range_to = Some 6\<rparr>" and f = 5 and t = 6]
    example_link 2 3 4
  show ?thesis by blast
qed

section \<open>Properties of link creation\<close>

lemma create_loop_free:
  "\<not> taken st s \<Longrightarrow> retries \<le> 3 \<Longrightarrow>
   create_loop st r req now url p s retries = created st req now url s r"
  by (subst create_loop.simps) (simp add: taken_def link_create_def maxRetries_def created_def Let_def)

lemma create_loop_supplied_taken:
  "taken st s \<Longrightarrow> retries \<le> 3 \<Longrightarrow>
   create_loop st r req now url True s retries =
     (Some (Response 409 (ErrorJson ''SLUG_TAKEN'' ''Slug already exists'')), st, r)"
  by (subst create_loop.simps) (simp add: taken_def link_create_def maxRetries_def)

lemma create_loop_retry:
  "taken st s \<Longrightarrow> retries < 3 \<Longrightarrow>
   create_loop st r req now url False s retries =
     create_loop st (snd (randomSlug_default r)) req now url False (fst (randomSlug_default r)) (Suc retries)"
  by (subst create_loop.simps [of st r req now url False s retries])
     (simp add: taken_def link_create_def maxRetries_def)

lemma create_loop_exhausted:
  "taken st s \<Longrightarrow>
   create_loop st r req now url False s 3 =
     (Some (Response 500 (ErrorJson ''INTERNAL''
        ''Unable to generate unique slug after multiple attempts'')), st, r)"
  by (subst create_loop.simps) (simp add: taken_def link_create_def maxRetries_def)

lemma post_links_generated_start:
  "url_ok (body_targetUrl b) \<Longrightarrow> body_slug b = None \<Longrightarrow>
   post_links url_ok st r now req b =
     create_loop st (rng_after 1 r) req now (body_targetUrl b) False (drawn 0 r) 0"
  by (simp add: post_links_def parseCreateLink_def truthy_str_def Let_def drawn_def)

lemma create_loop_step:
  "taken st (drawn k r) \<Longrightarrow> k < 3 \<Longrightarrow>
   create_loop st (rng_after (Suc k) r) req now url False (drawn k r) k =
     create_loop st (rng_after (Suc (Suc k)) r) req now url False (drawn (Suc k) r) (Suc k)"
  by (simp add: create_loop_retry drawn_def)


lemma post_links_generated_steps:
  assumes "url_ok (body_targetUrl b)" and "body_slug b = None"
  shows "post_links url_ok st r now req b =
           create_loop st (rng_after 1 r) req now (body_targetUrl b) False (drawn 0 r) 0"
    and "taken st (drawn 0 r) \<Longrightarrow> post_links url_ok st r now req b =
           create_loop st (rng_after 2 r) req now (body_targetUrl b) False (drawn 1 r) 1"
    and "taken st (drawn 0 r) \<Longrightarrow> taken st (drawn 1 r) \<Longrightarrow> post_links url_ok st r now req b =
           create_loop st (rng_after 3 r) req now (body_targetUrl b) False (drawn 2 r) 2"
    and "taken st (drawn 0 r) \<Longrightarrow> taken st (drawn 1 r) \<Longrightarrow> taken st (drawn 2 r) \<Longrightarrow>
         post_links url_ok st r now req b =
           create_loop st (rng_after 4 r) req now (body_targetUrl b) False (drawn 3 r) 3"
proof -
  let ?url = "body_targetUrl b"
  show 0: "post_links url_ok st r now req b =
           create_loop st (rng_after 1 r) req now ?url False (drawn 0 r) 0"
    using assms by (simp add: post_links_generated_start)
  have s1: "taken st (drawn 0 r) \<Longrightarrow>
      create_loop st (rng_after 1 r) req now ?url False (drawn 0 r) 0 =
      create_loop st (rng_after 2 r) req now ?url False (drawn 1 r) 1"
    using create_loop_step [of st 0 r req now ?url] by (simp add: eval_nat_numeral)
  have s2: "taken st (drawn 1 r) \<Longrightarrow>
      create_loop st (rng_after 2 r) req now ?url False (drawn 1 r) 1 =
      create_loop st (rng_after 3 r) req now ?url False (drawn 2 r) 2"
    using create_loop_step [of st 1 r req now ?url] by (simp add: eval_nat_numeral)
  have s3: "taken st (drawn 2 r) \<Longrightarrow>
      create_loop st (rng_after 3 r) req now ?url False (drawn 2 r) 2 =
      create_loop st (rng_after 4 r) req now ?url False (drawn 3 r) 3"
    using create_loop_step [of st 2 r req now ?url] by (simp add: eval_nat_numeral)
  show "taken st (drawn 0 r) \<Longrightarrow> post_links url_ok st r now req b =
           create_loop st (rng_after 2 r) req now ?url False (drawn 1 r) 1"
    using 0 s1 by simp
  show "taken st (drawn 0 r) \<Longrightarrow> taken st (drawn 1 r) \<Longrightarrow> post_links url_ok st r now req b =
           create_loop st (rng_after 3 r) req now ?url False (drawn 2 r) 2"
    using 0 s1 s2 by simp
  show "taken st (drawn 0 r) \<Longrightarrow> taken st (drawn 1 r) \<Longrightarrow> taken st (drawn 2 r) \<Longrightarrow>
         post_links url_ok st r now req b =
           create_loop st (rng_after 4 r) req now ?url False (drawn 3 r) 3"
    using 0 s1 s2 s3 by simp
qed

lemma create_loop_responds:
  "retries \<le> maxRetries \<Longrightarrow> fst (create_loop st r req now url p s retries) \<noteq> None"
proof (induction st r req now url p s retries rule: create_loop.induct)
  case (1 st r req now url wasSlugProvided s retries)
  show ?case
  proof (cases "link_create st s url now")
    case (Inr a)
    with "1.prems" show ?thesis
      by (subst create_loop.simps) (simp split: prod.splits)
  next
    case (Inl dbError)
    show ?thesis
    proof (cases "db_code dbError = ''P2002'' \<and> ''slug'' \<in> set (db_target dbError) \<and>
                  \<not> wasSlugProvided \<and> retries < maxRetries")
      case True
      with "1.prems" Inl "1.IH" [of dbError] show ?thesis
        by (subst create_loop.simps) simp
    next
      case False
      with "1.prems" Inl show ?thesis
        by (subst create_loop.simps) auto
    qed
  qed
qed

lemma post_links_responds: "fst (post_links url_ok st r now req b) \<noteq> None"
  by (cases "parseCreateLink url_ok b")
     (simp_all add: post_links_def Let_def create_loop_responds)

lemma rng_after_eq: "rng_after k r = (\<lambda>i. r (i + 7 * k))"
  by (induction k) (simp_all add: randomSlug_default_def randomSlug_eq add.assoc)

lemma drawn_eq: "drawn k r = map (\<lambda>j. BASE62_CHARS ! (unat (r (j + 7 * k)) mod 62)) [0..<7]"
  by (simp add: drawn_def rng_after_eq randomSlug_default_def randomSlug_eq)

lemma upt_7: "[0..<7] = [0, 1, 2, 3, 4, 5, 6]"
  by code_simp

lemma example_drawn:
  "drawn 0 example_rng = ''0000000''" "drawn 1 example_rng = ''1111111''"
  "drawn 2 example_rng = ''2222222''" "drawn 3 example_rng = ''3333333''"
  by (simp_all add: drawn_eq upt_7 example_rng_def BASE62_CHARS_def)

text \<open>
  Claim C3. For a valid create request without a slug, the handler generates a slug and
  attempts the insertion; on each conflict with a slug of the store it generates the
  next slug and tries again, at most 3 more times. The request succeeds (201) with the
  first of the four generated slugs that is free, in particular with the third when the
  first two collide, having drawn exactly as many slugs as it tried; when all four
  collide, it fails with the status 500 and the code \<^verbatim>\<open>INTERNAL\<close>, and the store is
  unchanged.
\<close>

theorem generated_slug_retry:
  assumes "url_ok (body_targetUrl b)" and "body_slug b = None"
  shows "(\<not> taken st (drawn 0 r) \<longrightarrow>
            post_links url_ok st r now req b =
              created st req now (body_targetUrl b) (drawn 0 r) (rng_after 1 r)) \<and>
         (taken st (drawn 0 r) \<and> \<not> taken st (drawn 1 r) \<longrightarrow>
            post_links url_ok st r now req b =
              created st req now (body_targetUrl b) (drawn 1 r) (rng_after 2 r)) \<and>
         (taken st (drawn 0 r) \<and> taken st (drawn 1 r) \<and> \<not> taken st (drawn 2 r) \<longrightarrow>
            post_links url_ok st r now req b =
              created st req now (body_targetUrl b) (drawn 2 r) (rng_after 3 r)) \<and>
         (taken st (drawn 0 r) \<and> taken st (drawn 1 r) \<and> taken st (drawn 2 r) \<and>
          \<not> taken st (drawn 3 r) \<longrightarrow>
            post_links url_ok st r now req b =
              created st req now (body_targetUrl b) (drawn 3 r) (rng_after 4 r)) \<and>
         (taken st (drawn 0 r) \<and> taken st (drawn 1 r) \<and> taken st (drawn 2 r) \<and>
          taken st (drawn 3 r) \<longrightarrow>
            post_links url_ok st r now req b =
              (Some (Response 500 (ErrorJson ''INTERNAL''
                 ''Unable to generate unique slug after multiple attempts'')), st, rng_after 4 r))"
proof -
  note steps = post_links_generated_steps [where url_ok = url_ok and b = b and st = st and r = r
      and now = now and req = req, OF assms]
  have 1: "\<not> taken st (drawn 0 r) \<longrightarrow> post_links url_ok st r now req b =
              created st req now (body_targetUrl b) (drawn 0 r) (rng_after 1 r)"
    using steps(1) by (simp add: create_loop_free)
  have 2: "taken st (drawn 0 r) \<and> \<not> taken st (drawn 1 r) \<longrightarrow> post_links url_ok st r now req b =
              created st req now (body_targetUrl b) (drawn 1 r) (rng_after 2 r)"
    using steps(2) by (simp add: create_loop_free)
  have 3: "taken st (drawn 0 r) \<and> taken st (drawn 1 r) \<and> \<not> taken st (drawn 2 r) \<longrightarrow>
            post_links url_ok st r now req b =
              created st req now (body_targetUrl b) (drawn 2 r) (rng_after 3 r)"
    using steps(3) by (simp add: create_loop_free)
  have 4: "taken st (drawn 0 r) \<and> taken st (drawn 1 r) \<and> taken st (drawn 2 r) \<and>
          \<not> taken st (drawn 3 r) \<longrightarrow>
            post_links url_ok st r now req b =
              created st req now (body_targetUrl b) (drawn 3 r) (rng_after 4 r)"
    using steps(4) by (simp add: create_loop_free)
  have 5: "taken st (drawn 0 r) \<and> taken st (drawn 1 r) \<and> taken st (drawn 2 r) \<and>
          taken st (drawn 3 r) \<longrightarrow>
            post_links url_ok st r now req b =
              (Some (Response 500 (ErrorJson ''INTERNAL''
                 ''Unable to generate unique slug after multiple attempts'')), st, rng_after 4 r)"
    using steps(4) by (simp add: create_loop_exhausted)
  from 1 2 3 4 5 show ?thesis by blast
qed

text \<open>
  The claim at \<open>retry_store\<close>, whose slugs are the first two generated ones (the third is
  used), and at \<open>full_store\<close>, whose slugs are the first four (the request fails).
\<close>

theorem generated_slug_retry_witness:
  "post_links example_url_ok retry_store example_rng 9 example_request
      \<lparr>body_targetUrl = ''https://example.com/x'', body_slug = None\<rparr>
     = (Some (Response 201 (LinkJson
          \<lparr>link_id = 22, slug = ''2222222'', targetUrl = ''https://example.com/x'', createdAt = 9\<rparr>
          ''http://sho.rt/r/2222222'')),
        retry_store\<lparr>links := links retry_store @
          [\<lparr>link_id = 22, slug = ''2222222'', targetUrl = ''https://example.com/x'', createdAt = 9\<rparr>],
          next_id := 23\<rparr>,
        rng_after 3 example_rng) \<and>
   post_links example_url_ok full_store example_rng 9 example_request
      \<lparr>body_targetUrl = ''https://example.com/x'', body_slug = None\<rparr>
     = (Some (Response 500 (ErrorJson ''INTERNAL''
          ''Unable to generate unique slug after multiple attempts'')), full_store,
        rng_after 4 example_rng)"
proof -
  let ?b = "\<lparr>body_targetUrl = ''https://example.com/x'', body_slug = None\<rparr>"
  have u: "example_url_ok (body_targetUrl ?b)" and n: "body_slug ?b = None"
    by (simp_all add: example_url_ok_def)
  have t: "taken retry_store ''0000000''" "taken retry_store ''1111111''"
          "\<not> taken retry_store ''2222222''"
    by (simp_all add: taken_def retry_store_def)
  have f: "taken full_store ''0000000''" "taken full_store ''1111111''"
          "taken full_store ''2222222''" "taken full_store ''3333333''"
    by (simp_all add: taken_def full_store_def)
  have c: "created retry_store example_request 9 (body_targetUrl ?b) ''2222222''
             (rng_after 3 example_rng)
     = (Some (Response 201 (LinkJson
          \<lparr>link_id = 22, slug = ''2222222'', targetUrl = ''https://example.com/x'', createdAt = 9\<rparr>
          ''http://sho.rt/r/2222222'')),
        retry_store\<lparr>links := links retry_store @
          [\<lparr>link_id = 22, slug = ''2222222'', targetUrl = ''https://example.com/x'', createdAt = 9\<rparr>],
          next_id := 23\<rparr>,
        rng_after 3 example_rng)"
    by (simp add: created_def Let_def retry_store_def shortUrl_def example_request_def or_str_def)
  show ?thesis
    using generated_slug_retry [where url_ok = example_url_ok and st = retry_store
        and r = example_rng and now = 9 and req = example_request and b = ?b, OF u n]
      generated_slug_retry [where url_ok = example_url_ok and st = full_store
        and r = example_rng and now = 9 and req = example_request and b = ?b, OF u n]
    by (simp only: example_drawn t f c simp_thms)
qed

text \<open>
  Claim C4. For a valid create request with a slug, the insertion is attempted with
  exactly that slug and no slug is generated (the random supply is untouched). If a link
  of the store has the slug, the handler answers 409 \<^verbatim>\<open>SLUG_TAKEN\<close>, which is not the
  response of a validation error, and the store is unchanged; otherwise the link is
  created with that slug.
\<close>

theorem supplied_slug_conflict:
  assumes "url_ok (body_targetUrl b)" and "body_slug b = Some s" and "slug_ok s"
  shows "(taken st s \<longrightarrow>
            post_links url_ok st r now req b =
              (Some (Response 409 (ErrorJson ''SLUG_TAKEN'' ''Slug already exists'')), st, r)) \<and>
         (\<not> taken st s \<longrightarrow>
            post_links url_ok st r now req b = created st req now (body_targetUrl b) s r) \<and>
         Response 409 (ErrorJson ''SLUG_TAKEN'' ''Slug already exists'') \<noteq>
           errorHandler \<lparr>status = Some 400, code = Some ''VALIDATION_ERROR'',
                         message = Some ''Invalid request data''\<rparr>"
proof -
  have ne: "s \<noteq> []"
    using assms(3) by (auto simp: slug_ok_def)
  have "post_links url_ok st r now req b =
          create_loop st r req now (body_targetUrl b) True s 0"
    using assms ne by (simp add: post_links_def parseCreateLink_def truthy_str_def Let_def)
  then show ?thesis
    by (simp add: create_loop_free create_loop_supplied_taken errorHandler_def or_num_def)
qed

text \<open>The claim at \<open>retry_store\<close>, with a slug it holds and with one it does not.\<close>

theorem supplied_slug_conflict_witness:
  "post_links example_url_ok retry_store example_rng 9 example_request
      \<lparr>body_targetUrl = ''https://example.com/x'', body_slug = Some ''1111111''\<rparr>
     = (Some (Response 409 (ErrorJson ''SLUG_TAKEN'' ''Slug already exists'')), retry_store, example_rng) \<and>
   post_links example_url_ok retry_store example_rng 9 example_request
      \<lparr>body_targetUrl = ''https://example.com/x'', body_slug = Some ''my-stack''\<rparr>
     = (Some (Response 201 (LinkJson
          \<lparr>link_id = 22, slug = ''my-stack'', targetUrl = ''https://example.com/x'', createdAt = 9\<rparr>
          ''http://sho.rt/r/my-stack'')),
        retry_store\<lparr>links := links retry_store @
          [\<lparr>link_id = 22, slug = ''my-stack'', targetUrl = ''https://example.com/x'', createdAt = 9\<rparr>],
          next_id := 23\<rparr>,
        example_rng)"
proof -
  let ?b1 = "\<lparr>body_targetUrl = ''https://example.com/x'', body_slug = Some ''1111111''\<rparr>"
  let ?b2 = "\<lparr>body_targetUrl = ''https://example.com/x'', body_slug = Some ''my-stack''\<rparr>"
  have u: "example_url_ok (body_targetUrl ?b1)" "example_url_ok (body_targetUrl ?b2)"
    and n: "body_slug ?b1 = Some ''1111111''" "body_slug ?b2 = Some ''my-stack''"
    by (simp_all add: example_url_ok_def)
  have t: "taken retry_store ''1111111''" "\<not> taken retry_store ''my-stack''"
    by (simp_all add: taken_def retry_store_def)
  have ok: "slug_ok ''1111111''" "slug_ok ''my-stack''"
    by (simp_all add: slug_ok_def slug_char_def BASE62_CHARS_def)
  have c: "created retry_store example_request 9 (body_targetUrl ?b2) ''my-stack'' example_rng
     = (Some (Response 201 (LinkJson
          \<lparr>link_id = 22, slug = ''my-stack'', targetUrl = ''https://example.com/x'', createdAt = 9\<rparr>
          ''http://sho.rt/r/my-stack'')),
        retry_store\<lparr>links := links retry_store @
          [\<lparr>link_id = 22, slug = ''my-stack'', targetUrl = ''https://example.com/x'', createdAt = 9\<rparr>],
          next_id := 23\<rparr>,
        example_rng)"
    by (simp add: created_def Let_def retry_store_def shortUrl_def example_request_def or_str_def)
  show ?thesis
    using supplied_slug_conflict [where url_ok = example_url_ok and st = retry_store
        and r = example_rng and now = 9 and req = example_request and b = ?b1, OF u(1) n(1) ok(1)]
      supplied_slug_conflict [where url_ok = example_url_ok and st = retry_store
        and r = example_rng and now = 9 and req = example_request and b = ?b2, OF u(2) n(2) ok(2)]
    by (simp only: t c simp_thms)
qed

section \<open>Properties of the redirect route\<close>

lemma link_findUnique_slug_None:
  "link_findUnique_slug st s = None \<longleftrightarrow> s \<notin> slug ` set (links st)"
  by (auto simp: link_findUnique_slug_def find_None_iff)

lemma link_findUnique_slug_Some:
  "link_findUnique_slug st s = Some l \<Longrightarrow> l \<in> set (links st) \<and> slug l = s"
  by (auto simp: link_findUnique_slug_def find_Some_iff)

text \<open>
  Claim C10. If no link has the slug, the redirect route answers 404 and the store is
  unchanged. If a link has the slug, the route appends exactly one click to the store,
  for the identifier of that link, at the current time, with the user agent of the
  request or the empty string when the header is absent, and answers with a 302
  redirect to the target URL of the link.
\<close>

theorem redirect_records_click:
  "(s \<notin> slug ` set (links st) \<longrightarrow>
      get_r_slug st now req s = (Response 404 (PlainText ''Not found''), st)) \<and>
   (s \<in> slug ` set (links st) \<longrightarrow>
      (\<exists>l \<in> set (links st). slug l = s \<and>
         get_r_slug st now req s =
           (Redirect 302 (targetUrl l),
            st\<lparr>clicks := clicks st @
                  [\<lparr>click_id = next_id st, linkId = link_id l, tsUtc = now,
                    userAgent = (case hdr_user_agent req of None \<Rightarrow> [] | Some ua \<Rightarrow> ua)\<rparr>],
               next_id := Suc (next_id st)\<rparr>)))"
proof (intro conjI impI)
  assume "s \<notin> slug ` set (links st)"
  then have "link_findUnique_slug st s = None"
    by (simp add: link_findUnique_slug_None)
  then show "get_r_slug st now req s = (Response 404 (PlainText ''Not found''), st)"
    by (simp add: get_r_slug_def)
next
  assume "s \<in> slug ` set (links st)"
  then obtain l where l: "link_findUnique_slug st s = Some l"
    using link_findUnique_slug_None [of st s] by auto
  then have m: "l \<in> set (links st)" "slug l = s"
    using link_findUnique_slug_Some by auto
  then have "\<exists>k \<in> set (links st). link_id k = link_id l"
    by blast
  with l have "get_r_slug st now req s =
           (Redirect 302 (targetUrl l),
            st\<lparr>clicks := clicks st @
                  [\<lparr>click_id = next_id st, linkId = link_id l, tsUtc = now,
                    userAgent = (case hdr_user_agent req of None \<Rightarrow> [] | Some ua \<Rightarrow> ua)\<rparr>],
               next_id := Suc (next_id st)\<rparr>)"
    by (simp add: get_r_slug_def click_create_def Let_def)
  with m show "\<exists>l \<in> set (links st). slug l = s \<and>
         get_r_slug st now req s =
           (Redirect 302 (targetUrl l),
            st\<lparr>clicks := clicks st @
                  [\<lparr>click_id = next_id st, linkId = link_id l, tsUtc = now,
                    userAgent = (case hdr_user_agent req of None \<Rightarrow> [] | Some ua \<Rightarrow> ua)\<rparr>],
               next_id := Suc (next_id st)\<rparr>)"
    by blast
qed

text \<open>
  The claim at \<open>retry_store\<close>: an unknown slug, a known slug with a user agent, and the
  same without the header.
\<close>

theorem redirect_records_click_witness:
  "get_r_slug retry_store 9 example_request ''nonexistent'' = (Response 404 (PlainText ''Not found''), retry_store) \<and>
   get_r_slug retry_store 9 example_request ''1111111'' =
     (Redirect 302 ''https://b.example/'',
      retry_store\<lparr>clicks := [\<lparr>click_id = 22, linkId = 21, tsUtc = 9, userAgent = ''test-browser/1.0''\<rparr>],
         next_id := 23\<rparr>) \<and>
   get_r_slug retry_store 9 (example_request\<lparr>hdr_user_agent := None\<rparr>) ''1111111'' =
     (Redirect 302 ''https://b.example/'',
      retry_store\<lparr>clicks := [\<lparr>click_id = 22, linkId = 21, tsUtc = 9, userAgent = []\<rparr>],
         next_id := 23\<rparr>)"
  using redirect_records_click [of "''nonexistent''" retry_store 9 example_request]
    redirect_records_click [of "''1111111''" retry_store 9 example_request]
    redirect_records_click [of "''1111111''" retry_store 9 "example_request\<lparr>hdr_user_agent := None\<rparr>"]
  by (simp add: retry_store_def example_request_def)

end
